theory Spec2Isabelle
  imports Complex_Main "HOL-Library.AList"
begin

section \<open>Python values, errors and option dictionaries\<close>

text \<open>
  Every \<^verbatim>\<open>raise\<close>, failed \<^verbatim>\<open>assert\<close> and failing builtin of the Python source is
  a value of \<open>error\<close>; a fallible function returns \<open>error + 'a\<close> with \<open>Inl\<close> for the
  exception.  The \<^verbatim>\<open>ValueError\<close> of \<^verbatim>\<open>_validate_options\<close> carries the three things its
  message is formatted from: the class name, the unexpected keys and the list printed
  after "The valid parameters are:".
\<close>

datatype error =
    ValueError_invalid_parameters string "string list" "string list"
  | ValueError_tolerances
  | ValueError_no_objects
  | TypeError
  | KeyError
  | IndexError
  | AssertionError
  | AttributeError
  | NotImplementedError string
  | TemplateError

text \<open>
  A Python float is a real number or NaN; every ordering comparison with NaN is false.
  Comparisons of floats are exact.  Where the result of float arithmetic is compared with
  a configured threshold, the rounding of each operation is written out (see
  \<open>float_percentage\<close>).
\<close>

datatype pyfloat = Fl real | NaN

fun fl_ge :: "pyfloat \<Rightarrow> pyfloat \<Rightarrow> bool" where
  "fl_ge (Fl a) (Fl b) = (b \<le> a)"
| "fl_ge _ _ = False"

fun fl_le :: "pyfloat \<Rightarrow> pyfloat \<Rightarrow> bool" where
  "fl_le (Fl a) (Fl b) = (a \<le> b)"
| "fl_le _ _ = False"

text \<open>
  The scalar option values a statement dictionary holds: strings (the only values that
  \<^verbatim>\<open>_parse_options\<close> renders), integers and floats.  Comparing a number with a string
  raises \<^verbatim>\<open>TypeError\<close> in Python.
\<close>

datatype optval = OStr string | OInt int | OFloat pyfloat

type_synonym options = "(string \<times> optval) list"

fun num_ge :: "pyfloat \<Rightarrow> optval \<Rightarrow> error + bool" where
  "num_ge x (OStr s) = Inl TypeError"
| "num_ge x (OInt i) = Inr (fl_ge x (Fl (real_of_int i)))"
| "num_ge x (OFloat f) = Inr (fl_ge x f)"

fun num_le :: "pyfloat \<Rightarrow> optval \<Rightarrow> error + bool" where
  "num_le x (OStr s) = Inl TypeError"
| "num_le x (OInt i) = Inr (fl_le x (Fl (real_of_int i)))"
| "num_le x (OFloat f) = Inr (fl_le x f)"

text \<open>\<^verbatim>\<open>options.get(key, default)\<close>\<close>

definition get_default :: "options \<Rightarrow> string \<Rightarrow> optval \<Rightarrow> optval" where
  "get_default opts k d = (case map_of opts k of None \<Rightarrow> d | Some v \<Rightarrow> v)"

section \<open>BaseStatement\<close>

text \<open>
  A statement class is its \<^verbatim>\<open>__name__\<close> and its \<^verbatim>\<open>expected_parameters\<close> attribute.
\<close>

record statement_class =
  cls_name :: string
  expected_parameters :: "string list"

definition BaseStatement_expected_parameters :: "string list" where
  "BaseStatement_expected_parameters = [''type'', ''severity'', ''location'']"

definition BaseStatement_cls :: statement_class where
  "BaseStatement_cls =
     \<lparr>cls_name = ''BaseStatement'', expected_parameters = BaseStatement_expected_parameters\<rparr>"

definition Unique_cls :: statement_class where
  "Unique_cls = \<lparr>cls_name = ''Unique'', expected_parameters = [''at_least_%'']\<rparr>"

definition NotNull_cls :: statement_class where
  "NotNull_cls =
     \<lparr>cls_name = ''NotNull'',
      expected_parameters = [''at_least_%'', ''at_most_%'', ''multicolumn_logic'']\<rparr>"

definition RowCount_cls :: statement_class where
  "RowCount_cls = \<lparr>cls_name = ''RowCount'', expected_parameters = [''min'', ''max'']\<rparr>"

definition Contain_cls :: statement_class where
  "Contain_cls =
     \<lparr>cls_name = ''Contain'',
      expected_parameters = [''rule'', ''values'', ''parser'', ''occurrences_per_value'',
        ''min_occurrences'', ''max_occurrences'', ''verbose'']\<rparr>"

definition StatisticInInterval_cls :: statement_class where
  "StatisticInInterval_cls =
     \<lparr>cls_name = ''StatisticInInterval'',
      expected_parameters = [''statistic'', ''<'', ''<='', ''>'', ''>='', ''=='', ''!='',
        ''combination_logic'', ''atol'', ''rtol'']\<rparr>"

text \<open>
  \<^verbatim>\<open>_validate_options\<close>: the keys of the dictionary, in its order, that are not in
  \<^verbatim>\<open>cls.expected_parameters + BaseStatement.expected_parameters\<close>; when there is one, a
  \<^verbatim>\<open>ValueError\<close> whose message prints that list and \<^verbatim>\<open>cls.expected_parameters\<close>.
\<close>

definition unexpected_parameters :: "statement_class \<Rightarrow> options \<Rightarrow> string list" where
  "unexpected_parameters cls opts =
     filter (\<lambda>option. option \<notin> set (expected_parameters cls @ BaseStatement_expected_parameters))
       (map fst opts)"

definition validate_options :: "statement_class \<Rightarrow> options \<Rightarrow> error + unit" where
  "validate_options cls opts =
     (if unexpected_parameters cls opts \<noteq> []
      then Inl (ValueError_invalid_parameters (cls_name cls) (unexpected_parameters cls opts)
                  (expected_parameters cls))
      else Inr ())"

text \<open>
  \<^verbatim>\<open>_parse_options\<close>: every string value is replaced by what the Jinja environment
  renders from it.  The template engine is outside the repository: it is the parameter
  \<open>render\<close>, which returns a native value or fails.
\<close>

fun parse_options :: "(string \<Rightarrow> error + optval) \<Rightarrow> options \<Rightarrow> error + options" where
  "parse_options render [] = Inr []"
| "parse_options render ((key, OStr s) # rest) =
     (case render s of
        Inl e \<Rightarrow> Inl e
      | Inr rendered \<Rightarrow>
          (case parse_options render rest of
             Inl e \<Rightarrow> Inl e
           | Inr rest' \<Rightarrow> Inr ((key, rendered) # rest')))"
| "parse_options render ((key, v) # rest) =
     (case parse_options render rest of
        Inl e \<Rightarrow> Inl e
      | Inr rest' \<Rightarrow> Inr ((key, v) # rest'))"

text \<open>\<^verbatim>\<open>BaseStatement.__init__\<close>: validate, then render; the result is \<^verbatim>\<open>self.options\<close>.\<close>

definition BaseStatement_init ::
  "(string \<Rightarrow> error + optval) \<Rightarrow> statement_class \<Rightarrow> options \<Rightarrow> error + options" where
  "BaseStatement_init render cls opts =
     (case validate_options cls opts of
        Inl e \<Rightarrow> Inl e
      | Inr u \<Rightarrow> parse_options render opts)"

section \<open>Scoped tables\<close>

text \<open>
  A DataFrame is its number of columns and its rows; a cell is \<open>None\<close> when null.  In a
  well-formed table every row has one cell per column.
\<close>

record 'a dataframe =
  ncols :: nat
  df_rows :: "'a option list list"

definition wf_df :: "'a dataframe \<Rightarrow> bool" where
  "wf_df df = list_all (\<lambda>r. length r = ncols df) (df_rows df)"

definition df_len :: "'a dataframe \<Rightarrow> nat" where
  "df_len df = length (df_rows df)"

definition df_column :: "'a dataframe \<Rightarrow> nat \<Rightarrow> 'a option list" where
  "df_column df j = map (\<lambda>r. r ! j) (df_rows df)"

text \<open>
  \<^verbatim>\<open>float(100.0*k/n)\<close> on numpy scalars: NaN (with a warning) when \<open>n = 0\<close>.  This is
  the quotient itself; \<open>float_percentage\<close> below is the double that the arithmetic
  returns.
\<close>

definition percentage :: "nat \<Rightarrow> nat \<Rightarrow> pyfloat" where
  "percentage k n = (if n = 0 then NaN else Fl (100 * real k / real n))"

text \<open>
  The same expression with every float operation rounded: \<open>rnd\<close> maps a real number
  to the double nearest to it.  IEEE arithmetic is outside the repository, so \<open>rnd\<close>
  is a parameter.  The count and the length are converted to doubles, the product with
  \<^verbatim>\<open>100.0\<close> and the quotient are rounded.  The count is at most the length, so a
  length of zero is \<^verbatim>\<open>0.0/0\<close>, which numpy evaluates to NaN.
\<close>

definition float_percentage :: "(real \<Rightarrow> real) \<Rightarrow> nat \<Rightarrow> nat \<Rightarrow> pyfloat" where
  "float_percentage rnd k n =
     (if n = 0 then NaN else Fl (rnd (rnd (100 * rnd (real k)) / rnd (real n))))"

section \<open>RowCount\<close>

record row_count =
  rc_min :: "optval option"
  rc_max :: "optval option"

definition RowCount_init :: "(string \<Rightarrow> error + optval) \<Rightarrow> options \<Rightarrow> error + row_count" where
  "RowCount_init render opts =
     (case BaseStatement_init render RowCount_cls opts of
        Inl e \<Rightarrow> Inl e
      | Inr options \<Rightarrow> Inr \<lparr>rc_min = map_of options ''min'', rc_max = map_of options ''max''\<rparr>)"

text \<open>The report of RowCount is the dictionary \<^verbatim>\<open>{'rows': row_count}\<close>.\<close>

definition RowCount_report :: "'a dataframe \<Rightarrow> (string \<times> int) list" where
  "RowCount_report df = [(''rows'', int (df_len df))]"

definition RowCount_result :: "row_count \<Rightarrow> (string \<times> int) list \<Rightarrow> error + bool" where
  "RowCount_result s report =
     (case map_of report ''rows'' of
        None \<Rightarrow> Inl KeyError
      | Some row_count \<Rightarrow>
          (case (case rc_min s of
                   None \<Rightarrow> Inr True
                 | Some mn \<Rightarrow> num_ge (Fl (real_of_int row_count)) mn) of
             Inl e \<Rightarrow> Inl e
           | Inr False \<Rightarrow> Inr False
           | Inr True \<Rightarrow>
               (case (case rc_max s of
                        None \<Rightarrow> Inr True
                      | Some mx \<Rightarrow> num_le (Fl (real_of_int row_count)) mx) of
                  Inl e \<Rightarrow> Inl e
                | Inr False \<Rightarrow> Inr False
                | Inr True \<Rightarrow> Inr True)))"

definition RowCount_profile :: "'a dataframe \<Rightarrow> options" where
  "RowCount_profile df =
     [(''type'', OStr ''row_count''), (''min'', OInt (int (df_len df))),
      (''max'', OInt (int (df_len df)))]"


section \<open>Unique\<close>

text \<open>
  \<^verbatim>\<open>DataFrame.duplicated(keep=False)\<close> of pandas: one flag per row, true for every row
  that occurs more than once; nulls at the same position compare equal; a frame with no
  rows or no columns gives the empty series.
\<close>

definition duplicated_keep_False :: "'a dataframe \<Rightarrow> bool list" where
  "duplicated_keep_False df =
     (if ncols df = 0 \<or> df_rows df = [] then []
      else map (\<lambda>r. 1 < count_list (df_rows df) r) (df_rows df))"

text \<open>\<^verbatim>\<open>.sum()\<close> of a boolean series\<close>

definition bool_sum :: "bool list \<Rightarrow> nat" where
  "bool_sum bs = length (filter (\<lambda>b. b) bs)"

record unique_stmt =
  u_at_least_perc :: optval

definition Unique_init :: "(string \<Rightarrow> error + optval) \<Rightarrow> options \<Rightarrow> error + unique_stmt" where
  "Unique_init render opts =
     (case BaseStatement_init render Unique_cls opts of
        Inl e \<Rightarrow> Inl e
      | Inr options \<Rightarrow>
          Inr \<lparr>u_at_least_perc = get_default options ''at_least_%'' (OFloat (Fl 100))\<rparr>)"

text \<open>
  \<^verbatim>\<open>unique_rows\<close> is the integer \<^verbatim>\<open>int(unique.sum())\<close>; \<^verbatim>\<open>unique_rows_%\<close> is the
  double that the float arithmetic yields.
\<close>

definition Unique_report ::
  "(real \<Rightarrow> real) \<Rightarrow> 'a dataframe \<Rightarrow> (string \<times> pyfloat) list" where
  "Unique_report rnd df =
     (let unique = map Not (duplicated_keep_False df) in
      [(''unique_rows'', Fl (real (bool_sum unique))),
       (''unique_rows_%'', float_percentage rnd (bool_sum unique) (length unique))])"

definition Unique_profile :: "(real \<Rightarrow> real) \<Rightarrow> 'a dataframe \<Rightarrow> options" where
  "Unique_profile rnd df =
     (let unique = map Not (duplicated_keep_False df) in
      [(''type'', OStr ''unique''),
       (''at_least_%'', OFloat (float_percentage rnd (bool_sum unique) (length unique)))])"

text \<open>\<^verbatim>\<open>report.get(...)\<close> is \<^verbatim>\<open>None\<close> for a missing key, and comparing it raises.\<close>

definition Unique_result :: "unique_stmt \<Rightarrow> (string \<times> pyfloat) list \<Rightarrow> error + bool" where
  "Unique_result s report =
     (case map_of report ''unique_rows_%'' of
        None \<Rightarrow> Inl TypeError
      | Some p \<Rightarrow> num_ge p (u_at_least_perc s))"

section \<open>NotNull\<close>

record not_null_stmt =
  nn_at_least_perc :: optval
  nn_at_most_perc :: optval
  nn_multicolumn_logic :: optval

definition NotNull_init :: "(string \<Rightarrow> error + optval) \<Rightarrow> options \<Rightarrow> error + not_null_stmt" where
  "NotNull_init render opts =
     (case BaseStatement_init render NotNull_cls opts of
        Inl e \<Rightarrow> Inl e
      | Inr options \<Rightarrow>
          (let logic = get_default options ''multicolumn_logic'' (OStr ''any'') in
           if logic = OStr ''any'' \<or> logic = OStr ''all''
           then Inr \<lparr>nn_at_least_perc = get_default options ''at_least_%'' (OFloat (Fl 100)),
                     nn_at_most_perc = get_default options ''at_most_%'' (OFloat (Fl 100)),
                     nn_multicolumn_logic = logic\<rparr>
           else Inl AssertionError))"

definition is_null :: "'a option \<Rightarrow> bool" where
  "is_null c = (c = None)"

text \<open>\<^verbatim>\<open>~df.isnull().any(axis=1)\<close> and \<^verbatim>\<open>~df.isnull().all(axis=1)\<close>\<close>

definition not_isnull_any :: "'a dataframe \<Rightarrow> bool list" where
  "not_isnull_any df = map (\<lambda>r. \<not> list_ex is_null r) (df_rows df)"

definition not_isnull_all :: "'a dataframe \<Rightarrow> bool list" where
  "not_isnull_all df = map (\<lambda>r. \<not> list_all is_null r) (df_rows df)"

definition NotNull_report :: "not_null_stmt \<Rightarrow> 'a dataframe \<Rightarrow> (string \<times> pyfloat) list" where
  "NotNull_report s df =
     (let not_nulls = (if nn_multicolumn_logic s = OStr ''all''
                       then not_isnull_any df else not_isnull_all df) in
      [(''null_rows'', Fl (real (bool_sum (map Not not_nulls)))),
       (''null_rows_%'', percentage (bool_sum (map Not not_nulls)) (length not_nulls)),
       (''not_null_rows'', Fl (real (bool_sum not_nulls))),
       (''not_null_rows_%'', percentage (bool_sum not_nulls) (length not_nulls))])"

definition NotNull_result :: "not_null_stmt \<Rightarrow> (string \<times> pyfloat) list \<Rightarrow> error + bool" where
  "NotNull_result s report =
     (case map_of report ''not_null_rows_%'' of
        None \<Rightarrow> Inl TypeError
      | Some p \<Rightarrow>
          (case num_ge p (nn_at_least_perc s) of
             Inl e \<Rightarrow> Inl e
           | Inr False \<Rightarrow> Inr False
           | Inr True \<Rightarrow>
               (case num_le p (nn_at_most_perc s) of
                  Inl e \<Rightarrow> Inl e
                | Inr False \<Rightarrow> Inr False
                | Inr True \<Rightarrow> Inr True)))"

text \<open>Float \<^verbatim>\<open>==\<close>: false whenever one side is NaN.\<close>

fun fl_eq :: "pyfloat \<Rightarrow> pyfloat \<Rightarrow> bool" where
  "fl_eq (Fl a) (Fl b) = (a = b)"
| "fl_eq _ _ = False"

text \<open>\<^verbatim>\<open>NotNull.profile\<close> of \<^verbatim>\<open>statements/not_null.py\<close>\<close>

definition NotNull_profile :: "'a dataframe \<Rightarrow> error + options" where
  "NotNull_profile df =
     (let not_nulls = not_isnull_all df;
          statement = [(''type'', OStr ''not_null'')];
          at_least_perc = percentage (bool_sum not_nulls) (length not_nulls)
      in if fl_eq at_least_perc (Fl 0)
         then Inl (NotImplementedError ''Statement is useless when all rows are null.'')
         else if \<not> fl_eq at_least_perc (Fl 100)
              then Inr (statement @ [(''at_least_%'', OFloat at_least_perc)])
              else Inr statement)"


text \<open>
  \<^verbatim>\<open>NotNull.profile\<close> of the older module \<^verbatim>\<open>statements.py\<close>, which the package
  \<^verbatim>\<open>statements/\<close> replaces: it never fails and always writes the logic and both
  percentages.
\<close>

definition NotNull_profile_legacy :: "'a dataframe \<Rightarrow> options" where
  "NotNull_profile_legacy df =
     (let not_nulls = not_isnull_all df
      in [(''type'', OStr ''not_null''),
          (''multicolumn_logic'', OStr ''any''),
          (''at_least_%'', OFloat (percentage (bool_sum not_nulls) (length not_nulls))),
          (''at_most_%'', OFloat (percentage (bool_sum not_nulls) (length not_nulls)))])"



section \<open>StatisticInInterval\<close>

fun fl_lt :: "pyfloat \<Rightarrow> pyfloat \<Rightarrow> bool" where
  "fl_lt (Fl a) (Fl b) = (a < b)"
| "fl_lt _ _ = False"

fun fl_gt :: "pyfloat \<Rightarrow> pyfloat \<Rightarrow> bool" where
  "fl_gt (Fl a) (Fl b) = (b < a)"
| "fl_gt _ _ = False"

fun num_lt :: "pyfloat \<Rightarrow> optval \<Rightarrow> error + bool" where
  "num_lt x (OStr s) = Inl TypeError"
| "num_lt x (OInt i) = Inr (fl_lt x (Fl (real_of_int i)))"
| "num_lt x (OFloat f) = Inr (fl_lt x f)"

fun num_gt :: "pyfloat \<Rightarrow> optval \<Rightarrow> error + bool" where
  "num_gt x (OStr s) = Inl TypeError"
| "num_gt x (OInt i) = Inr (fl_gt x (Fl (real_of_int i)))"
| "num_gt x (OFloat f) = Inr (fl_gt x f)"

text \<open>
  \<^verbatim>\<open>math.isclose(a, b, rel_tol=..., abs_tol=...)\<close> of the Python standard library, on
  floats: negative tolerances raise \<^verbatim>\<open>ValueError\<close>; equal numbers are close; otherwise
  the distance is compared with the relative tolerance scaled by either number and with
  the absolute tolerance, which is \<open>|a - b| \<le> max (rel_tol * max |a| |b|) abs_tol\<close>.  A NaN
  is close to nothing and a NaN tolerance admits nothing.
\<close>

fun le_tol :: "real \<Rightarrow> pyfloat \<Rightarrow> bool" where
  "le_tol d (Fl t) = (d \<le> t)"
| "le_tol d NaN = False"

fun scaled :: "pyfloat \<Rightarrow> real \<Rightarrow> pyfloat" where
  "scaled (Fl r) x = Fl \<bar>r * x\<bar>"
| "scaled NaN x = NaN"

fun isclose :: "pyfloat \<Rightarrow> pyfloat \<Rightarrow> pyfloat \<Rightarrow> pyfloat \<Rightarrow> error + bool" where
  "isclose a b rel_tol abs_tol =
     (if fl_lt rel_tol (Fl 0) \<or> fl_lt abs_tol (Fl 0) then Inl ValueError_tolerances
      else (case (a, b) of
              (Fl x, Fl y) \<Rightarrow>
                Inr (x = y \<or> le_tol \<bar>y - x\<bar> (scaled rel_tol y) \<or> le_tol \<bar>y - x\<bar> (scaled rel_tol x)
                       \<or> le_tol \<bar>y - x\<bar> abs_tol)
            | _ \<Rightarrow> Inr False))"

text \<open>
  The conversion of an argument of \<^verbatim>\<open>math.isclose\<close> to a float: \<^verbatim>\<open>None\<close> and strings
  raise \<^verbatim>\<open>TypeError\<close>.
\<close>

fun as_float :: "optval option \<Rightarrow> error + pyfloat" where
  "as_float None = Inl TypeError"
| "as_float (Some (OStr s)) = Inl TypeError"
| "as_float (Some (OInt i)) = Inr (Fl (real_of_int i))"
| "as_float (Some (OFloat f)) = Inr f"

definition isclose_call ::
  "pyfloat \<Rightarrow> optval option \<Rightarrow> optval \<Rightarrow> optval \<Rightarrow> error + bool" where
  "isclose_call a b rel_tol abs_tol =
     (case as_float b of
        Inl e \<Rightarrow> Inl e
      | Inr y \<Rightarrow>
          (case as_float (Some rel_tol) of
             Inl e \<Rightarrow> Inl e
           | Inr r \<Rightarrow>
               (case as_float (Some abs_tol) of
                  Inl e \<Rightarrow> Inl e
                | Inr t \<Rightarrow> isclose a y r t)))"

record statistic_in_interval =
  sii_statistic :: string
  sii_combination_logic :: string
  sii_less_than :: "optval option"
  sii_less_or_equal_to :: "optval option"
  sii_equal_to :: "optval option"
  sii_not_equal_to :: "optval option"
  sii_greater_or_equal_to :: "optval option"
  sii_greater_than :: "optval option"
  sii_atol :: optval
  sii_rtol :: optval

definition allowed_statistics :: "string list" where
  "allowed_statistics = [''min'', ''max'', ''mean'', ''std'', ''var'', ''count'', ''nunique'',
     ''sum'', ''median'', ''mode'']"

text \<open>\<^verbatim>\<open>str.lower\<close>, on ASCII\<close>

definition ascii_lower :: "char \<Rightarrow> char" where
  "ascii_lower c =
     (let n = (of_char c :: nat) in if 65 \<le> n \<and> n \<le> 90 then char_of (n + 32) else c)"

definition StatisticInInterval_init ::
  "(string \<Rightarrow> error + optval) \<Rightarrow> options \<Rightarrow> error + statistic_in_interval" where
  "StatisticInInterval_init render opts =
     (case BaseStatement_init render StatisticInInterval_cls opts of
        Inl e \<Rightarrow> Inl e
      | Inr options \<Rightarrow>
          (case map_of options ''statistic'' of
             None \<Rightarrow> Inl KeyError
           | Some (OStr statistic) \<Rightarrow>
               if statistic \<notin> set allowed_statistics then Inl AssertionError
               else (case get_default options ''combination_logic'' (OStr ''and'') of
                       OStr logic \<Rightarrow>
                         if map ascii_lower logic \<notin> {''and'', ''or''} then Inl AssertionError
                         else Inr \<lparr>sii_statistic = statistic,
                                   sii_combination_logic = map ascii_lower logic,
                                   sii_less_than = map_of options ''<'',
                                   sii_less_or_equal_to = map_of options ''<='',
                                   sii_equal_to = map_of options ''=='',
                                   sii_not_equal_to = map_of options ''!='',
                                   sii_greater_or_equal_to = map_of options ''>='',
                                   sii_greater_than = map_of options ''>'',
                                   sii_atol = get_default options ''atol'' (OFloat (Fl 0)),
                                   sii_rtol = get_default options ''rtol'' (OFloat (Fl (1 / 10 ^ 9)))\<rparr>
                     | _ \<Rightarrow> Inl AttributeError)
           | Some _ \<Rightarrow> Inl AssertionError))"

text \<open>
  The \<^verbatim>\<open>actual_value\<close> of a report: a float, a list of floats, or a list of lists of
  floats.  \<open>result\<close> makes a list of it; looking at the first element of an empty list
  raises \<^verbatim>\<open>IndexError\<close>.
\<close>

datatype actual = Single pyfloat | Many "pyfloat list" | Nested "pyfloat list list"

fun flatten_actual :: "actual \<Rightarrow> error + pyfloat list" where
  "flatten_actual (Single v) = Inr [v]"
| "flatten_actual (Many []) = Inl IndexError"
| "flatten_actual (Many vs) = Inr vs"
| "flatten_actual (Nested []) = Inl IndexError"
| "flatten_actual (Nested vss) = Inr (concat vss)"

definition and_logic :: "statistic_in_interval \<Rightarrow> bool" where
  "and_logic s = (sii_combination_logic s = ''and'')"

text \<open>
  The body shared by the six comparator blocks of the loop: a comparison that holds
  returns \<open>True\<close> unless the logic is \<^verbatim>\<open>and\<close>, one that does not hold returns \<open>False\<close>
  when the logic is \<^verbatim>\<open>and\<close>; \<open>None\<close> is falling through to the next block.
\<close>

definition early_exit :: "bool \<Rightarrow> bool \<Rightarrow> bool option" where
  "early_exit al holds =
     (if holds then (if \<not> al then Some True else None)
      else (if al then Some False else None))"

definition block :: "bool \<Rightarrow> error + bool \<Rightarrow> error + bool option" where
  "block al comparison =
     (case comparison of Inl e \<Rightarrow> Inl e | Inr holds \<Rightarrow> Inr (early_exit al holds))"

definition negate :: "error + bool \<Rightarrow> error + bool" where
  "negate r = (case r of Inl e \<Rightarrow> Inl e | Inr b \<Rightarrow> Inr (\<not> b))"

definition block_lt :: "statistic_in_interval \<Rightarrow> pyfloat \<Rightarrow> error + bool option" where
  "block_lt s v =
     (case sii_less_than s of None \<Rightarrow> Inr None
      | Some t \<Rightarrow> block (and_logic s) (num_lt v t))"

definition block_le :: "statistic_in_interval \<Rightarrow> pyfloat \<Rightarrow> error + bool option" where
  "block_le s v =
     (case sii_less_or_equal_to s of None \<Rightarrow> Inr None
      | Some t \<Rightarrow> block (and_logic s) (num_le v t))"

definition block_eq :: "statistic_in_interval \<Rightarrow> pyfloat \<Rightarrow> error + bool option" where
  "block_eq s v =
     (case sii_equal_to s of None \<Rightarrow> Inr None
      | Some t \<Rightarrow>
          block (and_logic s) (isclose_call v (sii_equal_to s) (sii_rtol s) (sii_atol s)))"

definition block_ne :: "statistic_in_interval \<Rightarrow> pyfloat \<Rightarrow> error + bool option" where
  "block_ne s v =
     (case sii_not_equal_to s of None \<Rightarrow> Inr None
      | Some t \<Rightarrow>
          block (and_logic s)
            (negate (isclose_call v (sii_equal_to s) (sii_rtol s) (sii_atol s))))"

definition block_ge :: "statistic_in_interval \<Rightarrow> pyfloat \<Rightarrow> error + bool option" where
  "block_ge s v =
     (case sii_greater_or_equal_to s of None \<Rightarrow> Inr None
      | Some t \<Rightarrow> block (and_logic s) (num_ge v t))"

definition block_gt :: "statistic_in_interval \<Rightarrow> pyfloat \<Rightarrow> error + bool option" where
  "block_gt s v =
     (case sii_greater_than s of None \<Rightarrow> Inr None
      | Some t \<Rightarrow> block (and_logic s) (num_gt v t))"

text \<open>Blocks run in sequence: the first exception or \<^verbatim>\<open>return\<close> ends the call.\<close>

fun run_blocks :: "(error + bool option) list \<Rightarrow> error + bool option" where
  "run_blocks [] = Inr None"
| "run_blocks (Inr None # bs) = run_blocks bs"
| "run_blocks (r # bs) = r"

definition check_value :: "statistic_in_interval \<Rightarrow> pyfloat \<Rightarrow> error + bool option" where
  "check_value s v =
     run_blocks [block_lt s v, block_le s v, block_eq s v, block_ne s v, block_ge s v,
       block_gt s v]"

fun result_loop :: "statistic_in_interval \<Rightarrow> pyfloat list \<Rightarrow> error + bool" where
  "result_loop s [] = Inr (and_logic s)"
| "result_loop s (v # vs) =
     (case check_value s v of
        Inl e \<Rightarrow> Inl e
      | Inr (Some verdict) \<Rightarrow> Inr verdict
      | Inr None \<Rightarrow> result_loop s vs)"

definition StatisticInInterval_result ::
  "statistic_in_interval \<Rightarrow> (string \<times> actual) list \<Rightarrow> error + bool" where
  "StatisticInInterval_result s report =
     (case map_of report ''actual_value'' of
        None \<Rightarrow> Inl KeyError
      | Some actual_value \<Rightarrow>
          (case flatten_actual actual_value of
             Inl e \<Rightarrow> Inl e
           | Inr vs \<Rightarrow> result_loop s vs))"

text \<open>
  The spec's words for the comparator chain: for one measured value, the outcome (holds,
  does not hold, or raises) of each comparator that is configured, in the order
  \<^verbatim>\<open><\<close>, \<^verbatim>\<open><=\<close>, \<^verbatim>\<open>==\<close>, \<^verbatim>\<open>!=\<close>, \<^verbatim>\<open>>=\<close>, \<^verbatim>\<open>>\<close>.
\<close>

definition configured :: "optval option \<Rightarrow> (optval \<Rightarrow> error + bool) \<Rightarrow> (error + bool) list" where
  "configured threshold comparison = (case threshold of None \<Rightarrow> [] | Some t \<Rightarrow> [comparison t])"

definition comparator_outcomes :: "statistic_in_interval \<Rightarrow> pyfloat \<Rightarrow> (error + bool) list" where
  "comparator_outcomes s v =
     configured (sii_less_than s) (num_lt v)
     @ configured (sii_less_or_equal_to s) (num_le v)
     @ configured (sii_equal_to s)
         (\<lambda>t. isclose_call v (sii_equal_to s) (sii_rtol s) (sii_atol s))
     @ configured (sii_not_equal_to s)
         (\<lambda>t. negate (isclose_call v (sii_equal_to s) (sii_rtol s) (sii_atol s)))
     @ configured (sii_greater_or_equal_to s) (num_ge v)
     @ configured (sii_greater_than s) (num_gt v)"

text \<open>
  The combination the spec describes over a sequence of outcomes: under AND the first
  comparison that does not hold gives false, under OR the first that holds gives true,
  an exception ends the evaluation, and a sequence without a deciding outcome gives true
  under AND and false under OR.
\<close>

fun spec_combine :: "bool \<Rightarrow> (error + bool) list \<Rightarrow> error + bool" where
  "spec_combine al [] = Inr al"
| "spec_combine al (Inl e # rest) = Inl e"
| "spec_combine al (Inr holds # rest) =
     (if al \<and> \<not> holds then Inr False
      else if \<not> al \<and> holds then Inr True
      else spec_combine al rest)"


section \<open>Contain\<close>

text \<open>
  An occurrence bound is an integer or \<^verbatim>\<open>np.inf\<close>.
\<close>

datatype occ = Fin int | PosInf

fun occ_le :: "occ \<Rightarrow> occ \<Rightarrow> bool" where
  "occ_le (Fin a) (Fin b) = (a \<le> b)"
| "occ_le PosInf (Fin b) = False"
| "occ_le x PosInf = True"

text \<open>
  The inner dictionary \<^verbatim>\<open>{'min_occurrences': ..., 'max_occurrences': ...}\<close> kept for each
  expected value.
\<close>

record boundary =
  b_min_occurrences :: occ
  b_max_occurrences :: occ

text \<open>
  An entry of \<^verbatim>\<open>occurrences_per_value\<close>: its \<^verbatim>\<open>values\<close> (one raw value or a list of
  them) and the bounds it sets.
\<close>

datatype 'r scalar_or_list = Scalar 'r | ListOf "'r list"

fun as_list :: "'r scalar_or_list \<Rightarrow> 'r list" where
  "as_list (Scalar x) = [x]"
| "as_list (ListOf xs) = xs"

record 'r occurrence =
  o_values :: "'r scalar_or_list"
  o_min_occurrences :: "occ option"
  o_max_occurrences :: "occ option"

text \<open>
  The options of a Contain statement once validated and rendered, read into typed
  fields.  The parser named by the option \<^verbatim>\<open>parser\<close> is outside the repository: it is
  the pair of the treater, which turns raw values into values of the column type, and
  its \<^verbatim>\<open>serialize\<close>.
\<close>

record 'r contain_options =
  co_rule :: string
  co_values :: "'r list"
  co_min_occurrences :: "occ option"
  co_max_occurrences :: "occ option"
  co_occurrences_per_value :: "'r occurrence list"
  co_verbose :: "bool option"

text \<open>
  The statement instance.  \<open>c_value_count\<close> is the attribute \<^verbatim>\<open>self.value_count\<close>,
  which does not exist before the first call of \<open>report\<close>.
\<close>

record ('r, 'a) contain =
  c_rule :: string
  c_treater :: "'r list \<Rightarrow> 'a list"
  c_serialize :: "'a list \<Rightarrow> 'r list"
  c_values :: "'a list"
  c_min_occurrences :: occ
  c_max_occurrences :: occ
  c_occurrences_per_value :: "'r occurrence list"
  c_verbose :: bool
  c_value_count :: "('a \<times> int) list option"

definition min_occurrences_rule_default :: "(string \<times> occ) list" where
  "min_occurrences_rule_default = [(''all'', Fin 1), (''only'', Fin 0), (''all_and_only'', Fin 1)]"

definition max_occurrences_rule_default :: "(string \<times> occ) list" where
  "max_occurrences_rule_default = [(''all'', PosInf), (''only'', PosInf), (''all_and_only'', PosInf)]"

definition set_default_minmax_occurrences ::
  "string \<Rightarrow> occ option \<Rightarrow> occ option \<Rightarrow> error + occ \<times> occ" where
  "set_default_minmax_occurrences rule mn mx =
     (case (case mn of
              None \<Rightarrow> (case map_of min_occurrences_rule_default rule of
                          None \<Rightarrow> Inl KeyError | Some d \<Rightarrow> Inr d)
            | Some m \<Rightarrow> Inr m) of
        Inl e \<Rightarrow> Inl e
      | Inr min_occurrences \<Rightarrow>
          (case (case mx of
                   None \<Rightarrow> (case map_of max_occurrences_rule_default rule of
                               None \<Rightarrow> Inl KeyError | Some d \<Rightarrow> Inr d)
                 | Some m \<Rightarrow> Inr m) of
             Inl e \<Rightarrow> Inl e
           | Inr max_occurrences \<Rightarrow> Inr (min_occurrences, max_occurrences)))"

definition assert_parameters :: "string \<Rightarrow> occ \<Rightarrow> occ \<Rightarrow> error + unit" where
  "assert_parameters rule mn mx =
     (if rule \<notin> {''all'', ''only'', ''all_and_only''} then Inl AssertionError
      else if \<not> occ_le (Fin 0) mn then Inl AssertionError
      else if \<not> occ_le (Fin 0) mx then Inl AssertionError
      else Inr ())"

definition Contain_init ::
  "('r list \<Rightarrow> 'a list) \<Rightarrow> ('a list \<Rightarrow> 'r list) \<Rightarrow> 'r contain_options \<Rightarrow> error + ('r, 'a) contain"
  where
  "Contain_init treater serialize opts =
     (case set_default_minmax_occurrences (co_rule opts) (co_min_occurrences opts)
             (co_max_occurrences opts) of
        Inl e \<Rightarrow> Inl e
      | Inr (mn, mx) \<Rightarrow>
          (case assert_parameters (co_rule opts) mn mx of
             Inl e \<Rightarrow> Inl e
           | Inr u \<Rightarrow>
               Inr \<lparr>c_rule = co_rule opts, c_treater = treater, c_serialize = serialize,
                    c_values = treater (co_values opts),
                    c_min_occurrences = mn, c_max_occurrences = mx,
                    c_occurrences_per_value = co_occurrences_per_value opts,
                    c_verbose = (case co_verbose opts of None \<Rightarrow> True | Some b \<Rightarrow> b),
                    c_value_count = None\<rparr>))"

text \<open>
  \<^verbatim>\<open>pd.concat(df[col] for col in df.columns)\<close> pools the columns and raises
  \<^verbatim>\<open>ValueError\<close> when there is none; \<^verbatim>\<open>value_counts()\<close> counts each distinct non-null
  value.  A dictionary is an association list with distinct keys; its order plays no
  part in any result below.
\<close>

definition pooled :: "'a dataframe \<Rightarrow> 'a option list" where
  "pooled df = concat (map (df_column df) [0..<ncols df])"

definition value_counts :: "'a option list \<Rightarrow> ('a \<times> int) list" where
  "value_counts xs =
     (let present = List.map_filter (\<lambda>x. x) xs
      in map (\<lambda>v. (v, int (count_list present v))) (remdups present))"

text \<open>\<^verbatim>\<open>dict(zip(keys, values))\<close>\<close>

definition dict_zip :: "'k list \<Rightarrow> 'v list \<Rightarrow> ('k \<times> 'v) list" where
  "dict_zip ks vs = fold (\<lambda>kv d. AList.update (fst kv) (snd kv) d) (zip ks vs) []"

definition Contain_report ::
  "('r, 'a) contain \<Rightarrow> 'a dataframe
     \<Rightarrow> error + ('r, 'a) contain \<times> (string \<times> ('r \<times> pyfloat) list) list" where
  "Contain_report c df =
     (if ncols df = 0 then Inl ValueError_no_objects
      else
        (let count_isin = value_counts (pooled df);
             keys = c_serialize c (map fst count_isin);
             report = [(''value_frequency'',
                        dict_zip keys (map (\<lambda>kv. Fl (real_of_int (snd kv))) count_isin))];
             total = sum_list (map snd count_isin)
         in Inr (c\<lparr>c_value_count := Some count_isin\<rparr>,
                 if c_verbose c
                 then report @ [(''value_rel_frequency_%'',
                        dict_zip keys
                          (map (\<lambda>kv. Fl (real_of_int (snd kv) * 100 / real_of_int total))
                             count_isin))]
                 else report)))"

text \<open>
  \<^verbatim>\<open>_set_min_max_boundaries\<close>.  The global pass stores the global pair under every
  expected value.  The dedicated pass assigns into the entry of each listed value, which
  raises \<^verbatim>\<open>KeyError\<close> when that value has no entry.
\<close>

definition global_boundaries :: "('r, 'a) contain \<Rightarrow> ('a \<times> boundary) list" where
  "global_boundaries c =
     fold (\<lambda>value b.
             AList.update value
               \<lparr>b_min_occurrences = c_min_occurrences c,
                b_max_occurrences = c_max_occurrences c\<rparr> b)
       (c_values c) []"

definition dedicated_pair :: "('r, 'a) contain \<Rightarrow> 'r occurrence \<Rightarrow> boundary" where
  "dedicated_pair c occurrence =
     \<lparr>b_min_occurrences =
        (case o_min_occurrences occurrence of None \<Rightarrow> c_min_occurrences c | Some m \<Rightarrow> m),
      b_max_occurrences =
        (case o_max_occurrences occurrence of None \<Rightarrow> c_max_occurrences c | Some m \<Rightarrow> m)\<rparr>"

fun assign_values ::
  "('r, 'a) contain \<Rightarrow> 'r occurrence \<Rightarrow> 'a list \<Rightarrow> ('a \<times> boundary) list
     \<Rightarrow> error + ('a \<times> boundary) list" where
  "assign_values c occurrence [] b = Inr b"
| "assign_values c occurrence (value # rest) b =
     (case map_of b value of
        None \<Rightarrow> Inl KeyError
      | Some entry \<Rightarrow>
          assign_values c occurrence rest (AList.update value (dedicated_pair c occurrence) b))"

definition listed :: "('r, 'a) contain \<Rightarrow> 'r occurrence \<Rightarrow> 'a list" where
  "listed c occurrence = c_treater c (as_list (o_values occurrence))"

fun dedicated_boundaries ::
  "('r, 'a) contain \<Rightarrow> 'r occurrence list \<Rightarrow> ('a \<times> boundary) list
     \<Rightarrow> error + ('a \<times> boundary) list" where
  "dedicated_boundaries c [] b = Inr b"
| "dedicated_boundaries c (occurrence # rest) b =
     (case assign_values c occurrence (listed c occurrence) b of
        Inl e \<Rightarrow> Inl e
      | Inr b' \<Rightarrow> dedicated_boundaries c rest b')"

definition set_min_max_boundaries :: "('r, 'a) contain \<Rightarrow> error + ('a \<times> boundary) list" where
  "set_min_max_boundaries c =
     dedicated_boundaries c (c_occurrences_per_value c) (global_boundaries c)"

text \<open>\<^verbatim>\<open>_set_values_scope\<close>\<close>

definition set_values_scope :: "('a \<times> boundary) list \<Rightarrow> 'a list" where
  "set_values_scope min_max_boundaries =
     map fst (filter (\<lambda>kv. b_max_occurrences (snd kv) \<noteq> Fin 0) min_max_boundaries)"

text \<open>\<^verbatim>\<open>_check_interval\<close>: the loop over \<^verbatim>\<open>self.values\<close>, leaving at the first violation.\<close>

fun check_interval_loop ::
  "string \<Rightarrow> ('a \<times> boundary) list \<Rightarrow> ('a \<times> int) list \<Rightarrow> 'a list \<Rightarrow> error + bool" where
  "check_interval_loop rule b value_count [] = Inr True"
| "check_interval_loop rule b value_count (value # rest) =
     (case map_of b value of
        None \<Rightarrow> Inl KeyError
      | Some entry \<Rightarrow>
          (let min_value = b_min_occurrences entry; max_value = b_max_occurrences entry
           in case map_of value_count value of
                Some n \<Rightarrow>
                  if \<not> (occ_le min_value (Fin n) \<and> occ_le (Fin n) max_value) then Inr False
                  else check_interval_loop rule b value_count rest
              | None \<Rightarrow>
                  if rule \<noteq> ''only'' \<and> max_value \<noteq> Fin 0 \<and> min_value \<noteq> Fin 0 then Inr False
                  else check_interval_loop rule b value_count rest))"

definition check_interval ::
  "('r, 'a) contain \<Rightarrow> ('a \<times> boundary) list \<Rightarrow> ('a \<times> int) list \<Rightarrow> error + bool" where
  "check_interval c b value_count = check_interval_loop (c_rule c) b value_count (c_values c)"

definition check_all :: "'a list \<Rightarrow> ('a \<times> int) list \<Rightarrow> bool" where
  "check_all values_scope_filter value_count =
     (if set values_scope_filter - set (map fst value_count) \<noteq> {} then False else True)"

definition check_only :: "'a list \<Rightarrow> ('a \<times> int) list \<Rightarrow> bool" where
  "check_only values_scope_filter value_count =
     (if set (map fst value_count) - set values_scope_filter \<noteq> {} then False else True)"

text \<open>\<^verbatim>\<open>_check_rule\<close> returns \<^verbatim>\<open>None\<close> when the rule is none of the three.\<close>

definition check_rule :: "string \<Rightarrow> 'a list \<Rightarrow> ('a \<times> int) list \<Rightarrow> bool option" where
  "check_rule rule values_scope_filter value_count =
     (if rule = ''all'' then Some (check_all values_scope_filter value_count)
      else if rule = ''only'' then Some (check_only values_scope_filter value_count)
      else if rule = ''all_and_only''
      then Some (check_all values_scope_filter value_count
                 \<and> check_only values_scope_filter value_count)
      else None)"

text \<open>
  \<open>Contain.result\<close>.  The attributes \<^verbatim>\<open>min_max_boundaries\<close> and \<^verbatim>\<open>values_scope_filter\<close>
  are written and then read within the call, so they are passed as values.
\<close>

definition Contain_result ::
  "('r, 'a) contain \<Rightarrow> (string \<times> ('r \<times> pyfloat) list) list \<Rightarrow> error + bool" where
  "Contain_result c report =
     (case c_value_count c of
        None \<Rightarrow> Inl AttributeError
      | Some value_count \<Rightarrow>
          (case set_min_max_boundaries c of
             Inl e \<Rightarrow> Inl e
           | Inr min_max_boundaries \<Rightarrow>
               (let values_scope_filter = set_values_scope min_max_boundaries
                in case check_interval c min_max_boundaries value_count of
                     Inl e \<Rightarrow> Inl e
                   | Inr False \<Rightarrow> Inr False
                   | Inr True \<Rightarrow>
                       (case check_rule (c_rule c) values_scope_filter value_count of
                          Some True \<Rightarrow> Inr True
                        | _ \<Rightarrow> Inr False))))"

text \<open>
  The spec's words for the boundaries: a value keeps the global pair unless an override
  group lists it; then the last group that lists it decides, each side falling back to
  the global bound when the group leaves it out.
\<close>

definition spec_resolved :: "('r, 'a) contain \<Rightarrow> 'a \<Rightarrow> boundary" where
  "spec_resolved c v =
     (case List.find (\<lambda>g. v \<in> set (listed c g)) (rev (c_occurrences_per_value c)) of
        None \<Rightarrow> \<lparr>b_min_occurrences = c_min_occurrences c,
                 b_max_occurrences = c_max_occurrences c\<rparr>
      | Some g \<Rightarrow>
          \<lparr>b_min_occurrences =
             (case o_min_occurrences g of None \<Rightarrow> c_min_occurrences c | Some m \<Rightarrow> m),
           b_max_occurrences =
             (case o_max_occurrences g of None \<Rightarrow> c_max_occurrences c | Some m \<Rightarrow> m)\<rparr>)"

text \<open>
  The spec's words for the interval check of one expected value with bounds \<open>bd\<close> and
  observed frequency \<open>freq\<close> (\<open>None\<close> when the value is not observed).
\<close>

definition spec_interval_ok :: "string \<Rightarrow> boundary \<Rightarrow> int option \<Rightarrow> bool" where
  "spec_interval_ok rule bd freq =
     (case freq of
        Some n \<Rightarrow> occ_le (b_min_occurrences bd) (Fin n) \<and> occ_le (Fin n) (b_max_occurrences bd)
      | None \<Rightarrow> \<not> (rule \<noteq> ''only'' \<and> b_min_occurrences bd \<noteq> Fin 0
                    \<and> b_max_occurrences bd \<noteq> Fin 0))"

section \<open>Theorems\<close>

subsection \<open>RowCount\<close>

lemma RowCount_profile_valid: "validate_options RowCount_cls (RowCount_profile df) = Inr ()"
  by (simp add: validate_options_def unexpected_parameters_def RowCount_profile_def
      RowCount_cls_def BaseStatement_expected_parameters_def)

lemma RowCount_profile_init:
  assumes "render ''row_count'' = Inr t"
  shows "RowCount_init render (RowCount_profile df) =
           Inr \<lparr>rc_min = Some (OInt (int (df_len df))), rc_max = Some (OInt (int (df_len df)))\<rparr>"
proof -
  have "parse_options render (RowCount_profile df) =
          Inr [(''type'', t), (''min'', OInt (int (df_len df))), (''max'', OInt (int (df_len df)))]"
    using assms by (simp add: RowCount_profile_def)
  then show ?thesis
    by (simp add: RowCount_init_def BaseStatement_init_def RowCount_profile_valid)
qed

text \<open>
  C7.  For every table \<open>df\<close>, the statement built from \<open>RowCount.profile(df)\<close> is built
  without error, has \<open>min = max =\<close> the row count, and its \<open>result\<close> on
  \<open>RowCount.report(df)\<close> is true.  The template engine is a parameter: it has to render
  the string \<^verbatim>\<open>'row_count'\<close> of the \<^verbatim>\<open>type\<close> key without failing, to whatever value.
\<close>

theorem C7_RowCount_round_trip:
  assumes "render ''row_count'' = Inr t"
  shows "\<exists>s. RowCount_init render (RowCount_profile df) = Inr s
           \<and> rc_min s = Some (OInt (int (df_len df)))
           \<and> rc_max s = Some (OInt (int (df_len df)))
           \<and> RowCount_result s (RowCount_report df) = Inr True"
  using assms RowCount_profile_init [of render t df]
  by (simp add: RowCount_result_def RowCount_report_def)

theorem C7_RowCount_round_trip_witness:
  "\<exists>s. RowCount_init (\<lambda>x. Inr (OStr x))
          (RowCount_profile \<lparr>ncols = 1, df_rows = [[Some (1::int)], [None], [Some 3]]\<rparr>) = Inr s
       \<and> rc_min s = Some (OInt 3) \<and> rc_max s = Some (OInt 3)
       \<and> RowCount_result s
           (RowCount_report \<lparr>ncols = 1, df_rows = [[Some (1::int)], [None], [Some 3]]\<rparr>) = Inr True"
  using C7_RowCount_round_trip
    [of "\<lambda>x. Inr (OStr x)" "OStr ''row_count''"
        "\<lparr>ncols = 1, df_rows = [[Some (1::int)], [None], [Some 3]]\<rparr>"]
  by (simp add: df_len_def)


subsection \<open>Option validation\<close>

text \<open>
  C5, as the spec states it, has the error name "the allowed set", which is the
  statement's own keys together with the universal ones.  For Unique and the unknown key
  \<^verbatim>\<open>foo\<close> the error lists \<^verbatim>\<open>at_least_%\<close> alone, although \<^verbatim>\<open>type\<close> is accepted.
\<close>

theorem C5_named_set_counterexample:
  "validate_options Unique_cls [(''foo'', OInt 1)]
     = Inl (ValueError_invalid_parameters ''Unique'' [''foo''] [''at_least_%''])
   \<and> validate_options Unique_cls [(''foo'', OInt 1)]
     \<noteq> Inl (ValueError_invalid_parameters ''Unique'' [''foo'']
            (expected_parameters Unique_cls @ BaseStatement_expected_parameters))
   \<and> validate_options Unique_cls [(''type'', OStr ''unique'')] = Inr ()"
  by (simp add: validate_options_def unexpected_parameters_def Unique_cls_def
      BaseStatement_expected_parameters_def)

text \<open>
  C5, amended.  Validation fails exactly when some key of the configuration is neither
  an expected parameter of the statement class nor one of \<^verbatim>\<open>type\<close>, \<^verbatim>\<open>severity\<close>,
  \<^verbatim>\<open>location\<close>; the error is a \<^verbatim>\<open>ValueError\<close> that names the class, the offending keys
  in the order of the configuration, and the class's own expected parameters; the
  constructor fails with that same error before anything else happens; a configuration
  whose keys are all expected passes validation.
\<close>

theorem C5_validate_options:
  "validate_options cls opts =
     (if \<exists>k \<in> set (map fst opts).
           k \<notin> set (expected_parameters cls) \<union> {''type'', ''severity'', ''location''}
      then Inl (ValueError_invalid_parameters (cls_name cls)
             (filter (\<lambda>k. k \<notin> set (expected_parameters cls) \<union> {''type'', ''severity'', ''location''})
                (map fst opts))
             (expected_parameters cls))
      else Inr ())
   \<and> (case validate_options cls opts of
         Inl e \<Rightarrow> BaseStatement_init render cls opts = Inl e
       | Inr u \<Rightarrow> BaseStatement_init render cls opts = parse_options render opts)"
proof -
  let ?ok = "set (expected_parameters cls) \<union> {''type'', ''severity'', ''location''}"
  have u: "unexpected_parameters cls opts = filter (\<lambda>k. k \<notin> ?ok) (map fst opts)"
    by (simp add: unexpected_parameters_def BaseStatement_expected_parameters_def)
  have e: "(filter (\<lambda>k. k \<notin> ?ok) (map fst opts) \<noteq> []) = (\<exists>k \<in> set (map fst opts). k \<notin> ?ok)"
    by (simp add: filter_empty_conv)
  have "validate_options cls opts =
     (if \<exists>k \<in> set (map fst opts). k \<notin> ?ok
      then Inl (ValueError_invalid_parameters (cls_name cls)
             (filter (\<lambda>k. k \<notin> ?ok) (map fst opts)) (expected_parameters cls))
      else Inr ())"
    unfolding validate_options_def u e by simp
  moreover have "case validate_options cls opts of
         Inl e \<Rightarrow> BaseStatement_init render cls opts = Inl e
       | Inr u \<Rightarrow> BaseStatement_init render cls opts = parse_options render opts"
    by (simp add: BaseStatement_init_def split: sum.splits)
  ultimately show ?thesis by blast
qed

theorem C5_validate_options_witness:
  "validate_options RowCount_cls [(''min'', OInt 1), (''foo'', OInt 1), (''type'', OStr ''row_count''),
       (''bar'', OInt 2)]
     = Inl (ValueError_invalid_parameters ''RowCount'' [''foo'', ''bar''] [''min'', ''max''])
   \<and> BaseStatement_init (\<lambda>x. Inr (OStr x)) RowCount_cls
        [(''min'', OInt 1), (''foo'', OInt 1), (''type'', OStr ''row_count''), (''bar'', OInt 2)]
     = Inl (ValueError_invalid_parameters ''RowCount'' [''foo'', ''bar''] [''min'', ''max''])"
proof -
  let ?opts = "[(''min'', OInt 1), (''foo'', OInt 1), (''type'', OStr ''row_count''),
       (''bar'', OInt 2)]"
  note t = C5_validate_options [of RowCount_cls ?opts "\<lambda>x. Inr (OStr x)"]
  have n: "cls_name RowCount_cls = ''RowCount''" "expected_parameters RowCount_cls = [''min'', ''max'']"
    by (simp_all add: RowCount_cls_def)
  from t have a: "validate_options RowCount_cls ?opts
     = Inl (ValueError_invalid_parameters ''RowCount'' [''foo'', ''bar''] [''min'', ''max''])"
    by (simp add: n)
  from t have "BaseStatement_init (\<lambda>x. Inr (OStr x)) RowCount_cls ?opts
     = Inl (ValueError_invalid_parameters ''RowCount'' [''foo'', ''bar''] [''min'', ''max''])"
    unfolding a by simp
  with a show ?thesis by simp
qed


subsection \<open>NotNull.profile\<close>

text \<open>
  The older profile names the logic it measures with: \<^verbatim>\<open>any\<close>, and its percentage is
  the one a statement with that logic reports.
\<close>

lemma NotNull_profile_legacy_any:
  assumes "nn_multicolumn_logic s = OStr ''any''"
  shows "map_of (NotNull_profile_legacy df) ''multicolumn_logic'' = Some (OStr ''any'')"
    and "map_of (NotNull_profile_legacy df) ''at_least_%''
           = map_option OFloat (map_of (NotNull_report s df) ''not_null_rows_%'')"
  using assms by (simp_all add: NotNull_profile_legacy_def NotNull_report_def Let_def)

text \<open>
  C6, as the spec states it, has the profile computed with the \<^verbatim>\<open>all\<close> logic.  A single
  row with one null and one non-null cell is 100% null under the \<^verbatim>\<open>all\<close> logic, so the
  profile would have to fail; it returns a statement instead, with no \<^verbatim>\<open>at_least_%\<close>,
  as for a sample that is 100% not-null.
\<close>

theorem C6_all_logic_counterexample:
  "map_of (NotNull_report
      \<lparr>nn_at_least_perc = OFloat (Fl 100), nn_at_most_perc = OFloat (Fl 100),
       nn_multicolumn_logic = OStr ''all''\<rparr>
      \<lparr>ncols = 2, df_rows = [[None, Some (1::int)]]\<rparr>) ''not_null_rows_%'' = Some (Fl 0)
   \<and> NotNull_profile \<lparr>ncols = 2, df_rows = [[None, Some (1::int)]]\<rparr>
       = Inr [(''type'', OStr ''not_null'')]"
  by (simp add: NotNull_report_def NotNull_profile_def not_isnull_any_def not_isnull_all_def
      is_null_def bool_sum_def percentage_def)

text \<open>
  C6, amended.  \<open>NotNull.profile\<close> measures the sample with the \<^verbatim>\<open>any\<close> logic (a row is
  null only when all its cells are null): with \<open>p\<close> the \<^verbatim>\<open>not_null_rows_%\<close> that a
  statement with \<^verbatim>\<open>multicolumn_logic = 'any'\<close> reports for the sample, the profile fails
  with "Statement is useless when all rows are null." when \<open>p\<close> is 0, is the bare
  statement without \<^verbatim>\<open>at_least_%\<close> when \<open>p\<close> is 100, and otherwise carries
  \<^verbatim>\<open>at_least_%\<close> equal to \<open>p\<close>.  It never sets \<^verbatim>\<open>multicolumn_logic\<close>, so the
  constructor's default \<^verbatim>\<open>any\<close> applies to the statement built from it.
\<close>

theorem C6_NotNull_profile:
  assumes "nn_multicolumn_logic s = OStr ''any''"
  shows "\<exists>p. map_of (NotNull_report s df) ''not_null_rows_%'' = Some p
     \<and> NotNull_profile df =
         (if fl_eq p (Fl 0)
          then Inl (NotImplementedError ''Statement is useless when all rows are null.'')
          else if fl_eq p (Fl 100) then Inr [(''type'', OStr ''not_null'')]
          else Inr [(''type'', OStr ''not_null''), (''at_least_%'', OFloat p)])
     \<and> (\<forall>opts. NotNull_profile df = Inr opts \<longrightarrow> map_of opts ''multicolumn_logic'' = None)"
  using assms
  by (simp add: NotNull_report_def NotNull_profile_def Let_def)

theorem C6_NotNull_profile_witness:
  "NotNull_profile \<lparr>ncols = 2, df_rows = [[None, Some (1::int)], [None, None], [Some 2, Some 3],
       [Some 4, None]]\<rparr>
     = Inr [(''type'', OStr ''not_null''), (''at_least_%'', OFloat (Fl 75))]"
  using C6_NotNull_profile
    [of "\<lparr>nn_at_least_perc = OFloat (Fl 100), nn_at_most_perc = OFloat (Fl 100),
          nn_multicolumn_logic = OStr ''any''\<rparr>"
        "\<lparr>ncols = 2, df_rows = [[None, Some (1::int)], [None, None], [Some 2, Some 3],
          [Some 4, None]]\<rparr>"]
  by (simp add: NotNull_report_def not_isnull_all_def is_null_def bool_sum_def percentage_def)

subsection \<open>Unique\<close>








text \<open>
  The statement built from \<open>Unique.profile\<close> of a table accepts that table: its threshold
  is the very double that the report holds.
\<close>

lemma Unique_profile_round_trip:
  assumes "ncols df \<noteq> 0" and "df_rows df \<noteq> []" and "render ''unique'' = Inr t"
  shows "\<exists>s. Unique_init render (Unique_profile rnd df) = Inr s
           \<and> Unique_result s (Unique_report rnd df) = Inr True"
proof -
  let ?unique = "map Not (duplicated_keep_False df)"
  let ?p = "float_percentage rnd (bool_sum ?unique) (length ?unique)"
  have "length ?unique \<noteq> 0"
    using assms(1,2) by (simp add: duplicated_keep_False_def)
  then obtain x where x: "?p = Fl x" by (simp add: float_percentage_def)
  have v: "validate_options Unique_cls (Unique_profile rnd df) = Inr ()"
    by (simp add: validate_options_def unexpected_parameters_def Unique_profile_def
        Unique_cls_def BaseStatement_expected_parameters_def Let_def)
  have "parse_options render (Unique_profile rnd df) = Inr [(''type'', t), (''at_least_%'', OFloat ?p)]"
    using assms(3) by (simp add: Unique_profile_def Let_def)
  then have i: "Unique_init render (Unique_profile rnd df) = Inr \<lparr>u_at_least_perc = OFloat ?p\<rparr>"
    by (simp add: Unique_init_def BaseStatement_init_def v get_default_def)
  have "Unique_result \<lparr>u_at_least_perc = OFloat ?p\<rparr> (Unique_report rnd df) = Inr True"
    using x by (simp add: Unique_result_def Unique_report_def Let_def)
  with i show ?thesis by blast
qed

subsection \<open>StatisticInInterval\<close>

lemma run_blocks_Cons:
  "run_blocks (r # bs) = (case r of Inr None \<Rightarrow> run_blocks bs | _ \<Rightarrow> r)"
  by (cases r) (auto split: option.splits)

lemma run_blocks_configured:
  "run_blocks (map (block al) (configured threshold comparison) @ rest) =
     run_blocks ((case threshold of None \<Rightarrow> Inr None | Some t \<Rightarrow> block al (comparison t)) # rest)"
  by (cases threshold) (simp_all add: configured_def)

lemma check_value_outcomes:
  "check_value s v = run_blocks (map (block (and_logic s)) (comparator_outcomes s v))"
proof -
  have g: "run_blocks (map (block (and_logic s)) (configured (sii_greater_than s) (num_gt v)))
             = run_blocks [block_gt s v]"
    using run_blocks_configured [of "and_logic s" "sii_greater_than s" "num_gt v" "[]"]
    by (simp add: block_gt_def)
  have "run_blocks (map (block (and_logic s)) (comparator_outcomes s v)) =
          run_blocks (block_lt s v # map (block (and_logic s))
            (configured (sii_less_or_equal_to s) (num_le v)
             @ configured (sii_equal_to s)
                 (\<lambda>t. isclose_call v (sii_equal_to s) (sii_rtol s) (sii_atol s))
             @ configured (sii_not_equal_to s)
                 (\<lambda>t. negate (isclose_call v (sii_equal_to s) (sii_rtol s) (sii_atol s)))
             @ configured (sii_greater_or_equal_to s) (num_ge v)
             @ configured (sii_greater_than s) (num_gt v)))"
    unfolding comparator_outcomes_def map_append run_blocks_configured block_lt_def ..
  also have "\<dots> = run_blocks (block_lt s v # block_le s v # map (block (and_logic s))
            (configured (sii_equal_to s)
                 (\<lambda>t. isclose_call v (sii_equal_to s) (sii_rtol s) (sii_atol s))
             @ configured (sii_not_equal_to s)
                 (\<lambda>t. negate (isclose_call v (sii_equal_to s) (sii_rtol s) (sii_atol s)))
             @ configured (sii_greater_or_equal_to s) (num_ge v)
             @ configured (sii_greater_than s) (num_gt v)))"
    unfolding run_blocks_Cons [of "block_lt s v"] map_append run_blocks_configured block_le_def ..
  also have "\<dots> = run_blocks (block_lt s v # block_le s v # block_eq s v
          # map (block (and_logic s))
            (configured (sii_not_equal_to s)
                 (\<lambda>t. negate (isclose_call v (sii_equal_to s) (sii_rtol s) (sii_atol s)))
             @ configured (sii_greater_or_equal_to s) (num_ge v)
             @ configured (sii_greater_than s) (num_gt v)))"
    unfolding run_blocks_Cons [of "block_lt s v"] run_blocks_Cons [of "block_le s v"]
      map_append run_blocks_configured block_eq_def ..
  also have "\<dots> = run_blocks (block_lt s v # block_le s v # block_eq s v # block_ne s v
          # map (block (and_logic s))
            (configured (sii_greater_or_equal_to s) (num_ge v)
             @ configured (sii_greater_than s) (num_gt v)))"
    unfolding run_blocks_Cons [of "block_lt s v"] run_blocks_Cons [of "block_le s v"]
      run_blocks_Cons [of "block_eq s v"] map_append run_blocks_configured block_ne_def ..
  also have "\<dots> = run_blocks (block_lt s v # block_le s v # block_eq s v # block_ne s v
          # block_ge s v # map (block (and_logic s)) (configured (sii_greater_than s) (num_gt v)))"
    unfolding run_blocks_Cons [of "block_lt s v"] run_blocks_Cons [of "block_le s v"]
      run_blocks_Cons [of "block_eq s v"] run_blocks_Cons [of "block_ne s v"]
      map_append run_blocks_configured block_ge_def ..
  also have "\<dots> = check_value s v"
    unfolding check_value_def
      run_blocks_Cons [of "block_lt s v"] run_blocks_Cons [of "block_le s v"]
      run_blocks_Cons [of "block_eq s v"] run_blocks_Cons [of "block_ne s v"]
      run_blocks_Cons [of "block_ge s v"] g ..
  finally show ?thesis ..
qed

lemma spec_combine_append:
  "spec_combine al (outs @ rest) =
     (case run_blocks (map (block al) outs) of
        Inl e \<Rightarrow> Inl e
      | Inr (Some verdict) \<Rightarrow> Inr verdict
      | Inr None \<Rightarrow> spec_combine al rest)"
proof (induction outs)
  case Nil
  then show ?case by simp
next
  case (Cons r outs)
  show ?case
  proof (cases r)
    case (Inl e)
    then show ?thesis by (simp add: block_def)
  next
    case (Inr holds)
    then show ?thesis using Cons.IH
      by (cases al; cases holds) (simp_all add: block_def early_exit_def)
  qed
qed

lemma result_loop_spec:
  "result_loop s vs = spec_combine (and_logic s) (concat (map (comparator_outcomes s) vs))"
  by (induction vs) (simp_all add: spec_combine_append check_value_outcomes split: sum.splits option.splits)

lemma spec_combine_prefix:
  "spec_combine al (replicate k (Inr al) @ rest) = spec_combine al rest"
  by (induction k) simp_all

text \<open>
  C3.  With both \<^verbatim>\<open>==\<close> and \<^verbatim>\<open>!=\<close> configured, the \<^verbatim>\<open>!=\<close> block of the loop calls the
  tolerance test on the measured value and the \<^verbatim>\<open>==\<close> threshold, and the comparison it
  feeds to the combination logic holds exactly when the value is not close to that
  threshold; the \<^verbatim>\<open>!=\<close> threshold itself is never read: replacing it by any other
  number leaves the verdict of \<open>result\<close> unchanged on every report.
\<close>

theorem C3_not_equal_uses_equal_to:
  assumes "sii_equal_to s = Some e" and "sii_not_equal_to s = Some n"
  shows "block_ne s v =
           (case isclose_call v (Some e) (sii_rtol s) (sii_atol s) of
              Inl err \<Rightarrow> Inl err
            | Inr close \<Rightarrow> Inr (early_exit (and_logic s) (\<not> close)))
       \<and> StatisticInInterval_result (s\<lparr>sii_not_equal_to := Some n'\<rparr>) report
           = StatisticInInterval_result s report"
proof -
  have a: "block_ne s v =
           (case isclose_call v (Some e) (sii_rtol s) (sii_atol s) of
              Inl err \<Rightarrow> Inl err
            | Inr close \<Rightarrow> Inr (early_exit (and_logic s) (\<not> close)))"
    using assms by (simp add: block_ne_def block_def negate_def split: sum.splits)
  have c: "check_value (s\<lparr>sii_not_equal_to := Some n'\<rparr>) w = check_value s w" for w
    using assms(2)
    by (simp add: check_value_def block_lt_def block_le_def block_eq_def block_ne_def
        block_ge_def block_gt_def and_logic_def cong: option.case_cong)
  have "result_loop (s\<lparr>sii_not_equal_to := Some n'\<rparr>) vs = result_loop s vs" for vs
    by (induction vs) (simp_all add: c and_logic_def cong: sum.case_cong option.case_cong)
  then have b: "StatisticInInterval_result (s\<lparr>sii_not_equal_to := Some n'\<rparr>) report
           = StatisticInInterval_result s report"
    by (simp add: StatisticInInterval_result_def cong: sum.case_cong option.case_cong)
  from a b show ?thesis by blast
qed

text \<open>
  The value 1 is close to the \<^verbatim>\<open>==\<close> threshold 1 and far from the \<^verbatim>\<open>!=\<close> threshold 5;
  under \<^verbatim>\<open>and\<close> the \<^verbatim>\<open>!=\<close> block nevertheless returns false.
\<close>

theorem C3_not_equal_uses_equal_to_witness:
  "block_ne
     \<lparr>sii_statistic = ''sum'', sii_combination_logic = ''and'', sii_less_than = None,
      sii_less_or_equal_to = None, sii_equal_to = Some (OInt 1), sii_not_equal_to = Some (OInt 5),
      sii_greater_or_equal_to = None, sii_greater_than = None, sii_atol = OFloat (Fl 0),
      sii_rtol = OFloat (Fl (1 / 10 ^ 9))\<rparr> (Fl 1) = Inr (Some False)"
  using C3_not_equal_uses_equal_to
    [of "\<lparr>sii_statistic = ''sum'', sii_combination_logic = ''and'', sii_less_than = None,
      sii_less_or_equal_to = None, sii_equal_to = Some (OInt 1), sii_not_equal_to = Some (OInt 5),
      sii_greater_or_equal_to = None, sii_greater_than = None, sii_atol = OFloat (Fl 0),
      sii_rtol = OFloat (Fl (1 / 10 ^ 9))\<rparr>" "OInt 1" "OInt 5" "Fl 1"]
  by (simp add: isclose_call_def early_exit_def and_logic_def)

text \<open>
  C4.  For every statement and every report whose measured values are \<open>vs\<close>, take the
  outcomes of the configured comparators, value after value.  Under \<^verbatim>\<open>and\<close>, if the
  first outcome that does not hold comes after \<open>k\<close> that hold, \<open>result\<close> is false whatever
  follows it; under \<^verbatim>\<open>or\<close>, if the first outcome that holds comes after \<open>k\<close> that do not,
  \<open>result\<close> is true whatever follows it; if every outcome holds under \<^verbatim>\<open>and\<close>, or none
  holds under \<^verbatim>\<open>or\<close> (also when there is no outcome at all), \<open>result\<close> is true under
  \<^verbatim>\<open>and\<close> and false under \<^verbatim>\<open>or\<close>.  In general \<open>result\<close> is the combination of the
  outcomes in their order.
\<close>

theorem C4_combination_logic:
  assumes "map_of report ''actual_value'' = Some a" and "flatten_actual a = Inr vs"
  shows "(and_logic s \<and>
            concat (map (comparator_outcomes s) vs) = replicate k (Inr True) @ Inr False # post
          \<longrightarrow> StatisticInInterval_result s report = Inr False)
       \<and> (\<not> and_logic s \<and>
            concat (map (comparator_outcomes s) vs) = replicate k (Inr False) @ Inr True # post
          \<longrightarrow> StatisticInInterval_result s report = Inr True)
       \<and> (concat (map (comparator_outcomes s) vs) = replicate k (Inr (and_logic s))
          \<longrightarrow> StatisticInInterval_result s report = Inr (and_logic s))
       \<and> StatisticInInterval_result s report
           = spec_combine (and_logic s) (concat (map (comparator_outcomes s) vs))"
proof -
  have r: "StatisticInInterval_result s report
             = spec_combine (and_logic s) (concat (map (comparator_outcomes s) vs))"
    using assms by (simp add: StatisticInInterval_result_def result_loop_spec)
  have 1: "spec_combine True (replicate k (Inr True) @ Inr False # post) = Inr False"
    using spec_combine_prefix [of True k "Inr False # post"] by simp
  have 2: "spec_combine False (replicate k (Inr False) @ Inr True # post) = Inr True"
    using spec_combine_prefix [of False k "Inr True # post"] by simp
  have 3: "spec_combine (and_logic s) (replicate k (Inr (and_logic s))) = Inr (and_logic s)"
    using spec_combine_prefix [of "and_logic s" k "[]"] by simp
  show ?thesis
    unfolding r using 1 2 3 by auto
qed

theorem C4_combination_logic_witness:
  "StatisticInInterval_result
     \<lparr>sii_statistic = ''mean'', sii_combination_logic = ''and'', sii_less_than = Some (OFloat (Fl (6 / 10))),
      sii_less_or_equal_to = None, sii_equal_to = None, sii_not_equal_to = None,
      sii_greater_or_equal_to = None, sii_greater_than = Some (OFloat (Fl (4 / 10))),
      sii_atol = OFloat (Fl 0), sii_rtol = OFloat (Fl (1 / 10 ^ 9))\<rparr>
     [(''actual_value'', Many [Fl (5 / 10), Fl (7 / 10)])] = Inr False"
proof -
  let ?s = "\<lparr>sii_statistic = ''mean'', sii_combination_logic = ''and'',
      sii_less_than = Some (OFloat (Fl (6 / 10))),
      sii_less_or_equal_to = None, sii_equal_to = None, sii_not_equal_to = None,
      sii_greater_or_equal_to = None, sii_greater_than = Some (OFloat (Fl (4 / 10))),
      sii_atol = OFloat (Fl 0), sii_rtol = OFloat (Fl (1 / 10 ^ 9))\<rparr>"
  let ?r = "[(''actual_value'', Many [Fl (5 / 10), Fl (7 / 10)])]"
  have h1: "map_of ?r ''actual_value'' = Some (Many [Fl (5 / 10), Fl (7 / 10)])" by simp
  have h2: "flatten_actual (Many [Fl (5 / 10), Fl (7 / 10)]) = Inr [Fl (5 / 10), Fl (7 / 10)]"
    by simp
  have al: "and_logic ?s" by (simp add: and_logic_def)
  have o: "concat (map (comparator_outcomes ?s) [Fl (5 / 10), Fl (7 / 10)])
             = replicate 2 (Inr True) @ Inr False # [Inr True]"
    by (simp add: comparator_outcomes_def configured_def numeral_2_eq_2)
  from C4_combination_logic [OF h1 h2, of ?s 2 "[Inr True]"] al o
  show ?thesis by blast
qed

text \<open>
  C10, as stated, has every statement with \<^verbatim>\<open>!=\<close> and without \<^verbatim>\<open>==\<close> raise
  \<^verbatim>\<open>TypeError\<close> on a report with a measured value.  With \<^verbatim>\<open><\<close> configured as well, a
  value that is not below the threshold makes \<open>result\<close> return false under \<^verbatim>\<open>and\<close>
  before the \<^verbatim>\<open>!=\<close> block is reached.
\<close>

theorem C10_early_exit_counterexample:
  "StatisticInInterval_result
     \<lparr>sii_statistic = ''mean'', sii_combination_logic = ''and'', sii_less_than = Some (OInt 1),
      sii_less_or_equal_to = None, sii_equal_to = None, sii_not_equal_to = Some (OInt 5),
      sii_greater_or_equal_to = None, sii_greater_than = None,
      sii_atol = OFloat (Fl 0), sii_rtol = OFloat (Fl (1 / 10 ^ 9))\<rparr>
     [(''actual_value'', Single (Fl 2))] = Inr False"
  by (simp add: StatisticInInterval_result_def check_value_def block_lt_def block_def
      early_exit_def and_logic_def)

lemma num_lt_error: "num_lt v t = Inl e \<Longrightarrow> e = TypeError"
  by (cases t) simp_all

lemma num_le_error: "num_le v t = Inl e \<Longrightarrow> e = TypeError"
  by (cases t) simp_all

lemma block_lt_error: "block_lt s v = Inl e \<Longrightarrow> e = TypeError"
  by (auto simp: block_lt_def block_def split: option.splits sum.splits dest: num_lt_error)

lemma block_le_error: "block_le s v = Inl e \<Longrightarrow> e = TypeError"
  by (auto simp: block_le_def block_def split: option.splits sum.splits dest: num_le_error)

text \<open>
  C10, amended.  For a statement with \<^verbatim>\<open>!=\<close> configured and \<^verbatim>\<open>==\<close> not, and a report
  with at least one measured value, \<open>result\<close> raises \<^verbatim>\<open>TypeError\<close> unless the \<^verbatim>\<open><\<close> or the
  \<^verbatim>\<open><=\<close> comparator ends the evaluation on the first value (by not holding under
  \<^verbatim>\<open>and\<close>, by holding under \<^verbatim>\<open>or\<close>), in which case \<open>result\<close> returns that verdict; in
  particular it raises \<^verbatim>\<open>TypeError\<close> whenever neither \<^verbatim>\<open><\<close> nor \<^verbatim>\<open><=\<close> is configured.
\<close>

theorem C10_not_equal_without_equal:
  assumes "sii_not_equal_to s = Some n" and "sii_equal_to s = None"
    and "map_of report ''actual_value'' = Some a" and "flatten_actual a = Inr (v # vs)"
  shows "StatisticInInterval_result s report =
           (case run_blocks [block_lt s v, block_le s v] of
              Inr (Some verdict) \<Rightarrow> Inr verdict
            | _ \<Rightarrow> Inl TypeError)
       \<and> (sii_less_than s = None \<and> sii_less_or_equal_to s = None
            \<longrightarrow> StatisticInInterval_result s report = Inl TypeError)"
proof -
  have ne: "block_ne s v = Inl TypeError"
    using assms(1,2) by (simp add: block_ne_def block_def negate_def isclose_call_def)
  have eq: "block_eq s v = Inr None"
    using assms(2) by (simp add: block_eq_def)
  have r: "StatisticInInterval_result s report =
             (case check_value s v of
                Inl e \<Rightarrow> Inl e
              | Inr (Some verdict) \<Rightarrow> Inr verdict
              | Inr None \<Rightarrow> result_loop s vs)"
    using assms(3,4) by (simp add: StatisticInInterval_result_def)
  have c: "check_value s v =
             (case run_blocks [block_lt s v, block_le s v] of
                Inr None \<Rightarrow> Inl TypeError
              | other \<Rightarrow> other)"
    using block_lt_error [of s v] block_le_error [of s v]
    by (auto simp: check_value_def run_blocks_Cons ne eq split: sum.splits option.splits)
  have 1: "StatisticInInterval_result s report =
           (case run_blocks [block_lt s v, block_le s v] of
              Inr (Some verdict) \<Rightarrow> Inr verdict
            | _ \<Rightarrow> Inl TypeError)"
    unfolding r c
    using block_lt_error [of s v] block_le_error [of s v]
    by (auto simp: run_blocks_Cons split: sum.splits option.splits)
  have 2: "sii_less_than s = None \<and> sii_less_or_equal_to s = None
            \<longrightarrow> StatisticInInterval_result s report = Inl TypeError"
    unfolding 1 by (simp add: block_lt_def block_le_def)
  from 1 2 show ?thesis by blast
qed

theorem C10_not_equal_without_equal_witness:
  "StatisticInInterval_result
     \<lparr>sii_statistic = ''mean'', sii_combination_logic = ''and'', sii_less_than = None,
      sii_less_or_equal_to = None, sii_equal_to = None, sii_not_equal_to = Some (OFloat (Fl (5 / 10))),
      sii_greater_or_equal_to = None, sii_greater_than = Some (OFloat (Fl (4 / 10))),
      sii_atol = OFloat (Fl 0), sii_rtol = OFloat (Fl (1 / 10 ^ 9))\<rparr>
     [(''actual_value'', Many [Fl (45 / 100), Fl 3])] = Inl TypeError"
proof -
  let ?s = "\<lparr>sii_statistic = ''mean'', sii_combination_logic = ''and'', sii_less_than = None,
      sii_less_or_equal_to = None, sii_equal_to = None, sii_not_equal_to = Some (OFloat (Fl (5 / 10))),
      sii_greater_or_equal_to = None, sii_greater_than = Some (OFloat (Fl (4 / 10))),
      sii_atol = OFloat (Fl 0), sii_rtol = OFloat (Fl (1 / 10 ^ 9))\<rparr>"
  have h1: "sii_not_equal_to ?s = Some (OFloat (Fl (5 / 10)))" by simp
  have h2: "sii_equal_to ?s = None" by simp
  have h3: "map_of [(''actual_value'', Many [Fl (45 / 100), Fl 3])] ''actual_value''
              = Some (Many [Fl (45 / 100), Fl 3])" by simp
  have h4: "flatten_actual (Many [Fl (45 / 100), Fl 3]) = Inr (Fl (45 / 100) # [Fl 3])" by simp
  from C10_not_equal_without_equal [OF h1 h2 h3 h4, THEN conjunct2]
  show ?thesis by simp
qed


subsection \<open>Contain: boundary resolution\<close>

lemma map_of_fold_update:
  "map_of (fold (\<lambda>v b. AList.update v p b) vs b0) k
     = (if k \<in> set vs then Some p else map_of b0 k)"
  by (induction vs arbitrary: b0) (auto simp: update_conv')

lemma map_of_global_boundaries:
  "map_of (global_boundaries c) k =
     (if k \<in> set (c_values c)
      then Some \<lparr>b_min_occurrences = c_min_occurrences c,
                 b_max_occurrences = c_max_occurrences c\<rparr>
      else None)"
  by (simp add: global_boundaries_def map_of_fold_update)

lemma assign_values_ok:
  assumes "set vs \<subseteq> dom (map_of b)"
  shows "\<exists>b'. assign_values c g vs b = Inr b'
           \<and> (\<forall>k. map_of b' k = (if k \<in> set vs then Some (dedicated_pair c g) else map_of b k))"
  using assms
proof (induction vs arbitrary: b)
  case Nil
  then show ?case by simp
next
  case (Cons v vs)
  let ?b1 = "AList.update v (dedicated_pair c g) b"
  from Cons.prems obtain entry where e: "map_of b v = Some entry" by auto
  have "set vs \<subseteq> dom (map_of ?b1)"
    using Cons.prems by (auto simp: update_conv')
  from Cons.IH [OF this] obtain b' where
    b': "assign_values c g vs ?b1 = Inr b'"
        "\<forall>k. map_of b' k = (if k \<in> set vs then Some (dedicated_pair c g) else map_of ?b1 k)"
    by blast
  have "assign_values c g (v # vs) b = Inr b'" using e b'(1) by simp
  moreover have "\<forall>k. map_of b' k
      = (if k \<in> set (v # vs) then Some (dedicated_pair c g) else map_of b k)"
    using b'(2) by (simp add: update_conv')
  ultimately show ?case by blast
qed

lemma assign_values_KeyError:
  assumes "\<not> set vs \<subseteq> dom (map_of b)"
  shows "assign_values c g vs b = Inl KeyError"
  using assms
proof (induction vs arbitrary: b)
  case Nil
  then show ?case by simp
next
  case (Cons v vs)
  show ?case
  proof (cases "map_of b v")
    case None
    then show ?thesis by simp
  next
    case (Some entry)
    let ?b1 = "AList.update v (dedicated_pair c g) b"
    have "dom (map_of ?b1) = dom (map_of b)"
      using Some by (auto simp: update_conv')
    then have "\<not> set vs \<subseteq> dom (map_of ?b1)"
      using Cons.prems Some by auto
    from Cons.IH [OF this] show ?thesis using Some by simp
  qed
qed

lemma find_append:
  "List.find P (xs @ ys) = (case List.find P xs of None \<Rightarrow> List.find P ys | Some x \<Rightarrow> Some x)"
  by (induction xs) simp_all

lemma find_SomeD: "List.find P xs = Some x \<Longrightarrow> x \<in> set xs \<and> P x"
  by (induction xs) (auto split: if_splits)

lemma dedicated_boundaries_ok:
  assumes "\<forall>g \<in> set gs. set (listed c g) \<subseteq> dom (map_of b)"
  shows "\<exists>b'. dedicated_boundaries c gs b = Inr b'
           \<and> (\<forall>k. map_of b' k =
                 (case List.find (\<lambda>g. k \<in> set (listed c g)) (rev gs) of
                    None \<Rightarrow> map_of b k
                  | Some g \<Rightarrow> Some (dedicated_pair c g)))"
  using assms
proof (induction gs arbitrary: b)
  case Nil
  then show ?case by simp
next
  case (Cons g gs)
  have "set (listed c g) \<subseteq> dom (map_of b)" using Cons.prems by simp
  from assign_values_ok [OF this, of c g] obtain b1 where
    b1: "assign_values c g (listed c g) b = Inr b1"
        "\<forall>k. map_of b1 k
           = (if k \<in> set (listed c g) then Some (dedicated_pair c g) else map_of b k)"
    by blast
  have "dom (map_of b1) = dom (map_of b)"
    using b1(2) \<open>set (listed c g) \<subseteq> dom (map_of b)\<close> by (auto simp: dom_def)
  then have "\<forall>g' \<in> set gs. set (listed c g') \<subseteq> dom (map_of b1)"
    using Cons.prems by simp
  from Cons.IH [OF this] obtain b' where
    b': "dedicated_boundaries c gs b1 = Inr b'"
        "\<forall>k. map_of b' k =
                 (case List.find (\<lambda>g. k \<in> set (listed c g)) (rev gs) of
                    None \<Rightarrow> map_of b1 k
                  | Some g \<Rightarrow> Some (dedicated_pair c g))"
    by blast
  have "dedicated_boundaries c (g # gs) b = Inr b'" using b1(1) b'(1) by simp
  moreover have "\<forall>k. map_of b' k =
                 (case List.find (\<lambda>g. k \<in> set (listed c g)) (rev (g # gs)) of
                    None \<Rightarrow> map_of b k
                  | Some g \<Rightarrow> Some (dedicated_pair c g))"
    using b'(2) b1(2) by (simp add: find_append split: option.splits)
  ultimately show ?case by blast
qed

lemma dedicated_boundaries_KeyError:
  assumes "\<not> (\<forall>g \<in> set gs. set (listed c g) \<subseteq> dom (map_of b))"
  shows "dedicated_boundaries c gs b = Inl KeyError"
  using assms
proof (induction gs arbitrary: b)
  case Nil
  then show ?case by simp
next
  case (Cons g gs)
  show ?case
  proof (cases "set (listed c g) \<subseteq> dom (map_of b)")
    case False
    then show ?thesis by (simp add: assign_values_KeyError)
  next
    case True
    from assign_values_ok [OF True, of c g] obtain b1 where
      b1: "assign_values c g (listed c g) b = Inr b1"
          "\<forall>k. map_of b1 k
             = (if k \<in> set (listed c g) then Some (dedicated_pair c g) else map_of b k)"
      by blast
    have "dom (map_of b1) = dom (map_of b)"
      using b1(2) True by (auto simp: dom_def)
    then have "\<not> (\<forall>g' \<in> set gs. set (listed c g') \<subseteq> dom (map_of b1))"
      using Cons.prems True by simp
    from Cons.IH [OF this] show ?thesis using b1(1) by simp
  qed
qed

lemma dom_global_boundaries: "dom (map_of (global_boundaries c)) = set (c_values c)"
  by (auto simp: dom_def map_of_global_boundaries)

lemma set_min_max_boundaries_ok:
  assumes "\<forall>g \<in> set (c_occurrences_per_value c). set (listed c g) \<subseteq> set (c_values c)"
  shows "\<exists>b. set_min_max_boundaries c = Inr b
           \<and> (\<forall>v. map_of b v = (if v \<in> set (c_values c) then Some (spec_resolved c v) else None))"
proof -
  have "\<forall>g \<in> set (c_occurrences_per_value c).
          set (listed c g) \<subseteq> dom (map_of (global_boundaries c))"
    using assms by (simp add: dom_global_boundaries)
  from dedicated_boundaries_ok [OF this] obtain b where
    b: "set_min_max_boundaries c = Inr b"
       "\<forall>k. map_of b k =
          (case List.find (\<lambda>g. k \<in> set (listed c g)) (rev (c_occurrences_per_value c)) of
             None \<Rightarrow> map_of (global_boundaries c) k
           | Some g \<Rightarrow> Some (dedicated_pair c g))"
    unfolding set_min_max_boundaries_def by blast
  have "map_of b v = (if v \<in> set (c_values c) then Some (spec_resolved c v) else None)" for v
  proof (cases "List.find (\<lambda>g. v \<in> set (listed c g)) (rev (c_occurrences_per_value c))")
    case None
    then show ?thesis
      using b(2) by (simp add: spec_resolved_def map_of_global_boundaries)
  next
    case (Some g)
    then have m: "g \<in> set (rev (c_occurrences_per_value c))" "v \<in> set (listed c g)"
      by (auto dest: find_SomeD)
    then have "g \<in> set (c_occurrences_per_value c)" by simp
    with assms have "set (listed c g) \<subseteq> set (c_values c)" by blast
    with m(2) have "v \<in> set (c_values c)" by blast
    then show ?thesis
      using b(2) Some by (simp add: spec_resolved_def dedicated_pair_def)
  qed
  with b(1) show ?thesis by blast
qed

lemma set_min_max_boundaries_KeyError:
  assumes "\<not> (\<forall>g \<in> set (c_occurrences_per_value c). set (listed c g) \<subseteq> set (c_values c))"
  shows "set_min_max_boundaries c = Inl KeyError"
  unfolding set_min_max_boundaries_def
  using assms by (intro dedicated_boundaries_KeyError) (simp add: dom_global_boundaries)

lemma set_min_max_boundaries_keys:
  assumes "set_min_max_boundaries c = Inr b"
  shows "map_of b v = (if v \<in> set (c_values c) then Some (spec_resolved c v) else None)"
proof (cases "\<forall>g \<in> set (c_occurrences_per_value c). set (listed c g) \<subseteq> set (c_values c)")
  case True
  from set_min_max_boundaries_ok [OF True] assms show ?thesis by auto
next
  case False
  from set_min_max_boundaries_KeyError [OF False] assms show ?thesis by simp
qed

lemma Contain_init_defaults:
  assumes "Contain_init treater serialize opts = Inr c"
  shows "c_min_occurrences c =
           (case co_min_occurrences opts of
              Some m \<Rightarrow> m
            | None \<Rightarrow> if co_rule opts = ''only'' then Fin 0 else Fin 1)"
    and "c_max_occurrences c = (case co_max_occurrences opts of Some m \<Rightarrow> m | None \<Rightarrow> PosInf)"
    and "c_rule c = co_rule opts" and "c_rule c \<in> {''all'', ''only'', ''all_and_only''}"
    and "c_values c = treater (co_values opts)"
    and "c_occurrences_per_value c = co_occurrences_per_value opts"
  using assms
  by (auto simp: Contain_init_def set_default_minmax_occurrences_def assert_parameters_def
      min_occurrences_rule_default_def max_occurrences_rule_default_def
      split: sum.splits option.splits if_splits)


text \<open>
  C2, as stated, has \<^verbatim>\<open>_set_min_max_boundaries\<close> re-assign the pair of each value an
  override group lists, for every statement.  When a group lists a value that is not
  among \<^verbatim>\<open>values\<close>, nothing is assigned: the call raises \<^verbatim>\<open>KeyError\<close>.
\<close>

theorem C2_unlisted_value_counterexample:
  "set_min_max_boundaries
     \<lparr>c_rule = ''all'', c_treater = id, c_serialize = id, c_values = [1 :: int],
      c_min_occurrences = Fin 1, c_max_occurrences = PosInf,
      c_occurrences_per_value =
        [\<lparr>o_values = Scalar (2 :: int), o_min_occurrences = Some (Fin 3),
          o_max_occurrences = None\<rparr>],
      c_verbose = True, c_value_count = None\<rparr> = Inl KeyError"
  by (simp add: set_min_max_boundaries_def global_boundaries_def listed_def)

text \<open>
  C2, amended.  For every Contain statement the constructor has built: the global
  bounds are the options given, and when unset the minimum is 1 under \<^verbatim>\<open>all\<close> and
  \<^verbatim>\<open>all_and_only\<close> and 0 under \<^verbatim>\<open>only\<close>, the maximum is infinity.  When every value
  listed by an override group is among \<^verbatim>\<open>values\<close>, \<^verbatim>\<open>_set_min_max_boundaries\<close> yields a
  dictionary whose keys are the expected values; a value listed by no group has the
  global pair, and a value listed by some group has the pair of the last group that
  lists it, each side falling back to the global bound where that group leaves it out.
  When some group lists a value that is not among \<^verbatim>\<open>values\<close>, the call raises
  \<^verbatim>\<open>KeyError\<close>.
\<close>

theorem C2_boundary_resolution:
  assumes "Contain_init treater serialize opts = Inr c"
  shows "co_rule opts \<in> {''all'', ''only'', ''all_and_only''}
     \<and> c_min_occurrences c =
         (case co_min_occurrences opts of
            Some m \<Rightarrow> m
          | None \<Rightarrow> if co_rule opts = ''only'' then Fin 0 else Fin 1)
     \<and> c_max_occurrences c = (case co_max_occurrences opts of Some m \<Rightarrow> m | None \<Rightarrow> PosInf)
     \<and> (if \<forall>g \<in> set (c_occurrences_per_value c). set (listed c g) \<subseteq> set (c_values c)
        then \<exists>b. set_min_max_boundaries c = Inr b
               \<and> (\<forall>v. map_of b v =
                     (if v \<in> set (c_values c) then Some (spec_resolved c v) else None))
        else set_min_max_boundaries c = Inl KeyError)"
proof -
  note d = Contain_init_defaults [OF assms]
  have 1: "co_rule opts \<in> {''all'', ''only'', ''all_and_only''}" using d(3,4) by simp
  have 4: "if \<forall>g \<in> set (c_occurrences_per_value c). set (listed c g) \<subseteq> set (c_values c)
        then \<exists>b. set_min_max_boundaries c = Inr b
               \<and> (\<forall>v. map_of b v =
                     (if v \<in> set (c_values c) then Some (spec_resolved c v) else None))
        else set_min_max_boundaries c = Inl KeyError"
    using set_min_max_boundaries_ok [of c] set_min_max_boundaries_KeyError [of c]
    by (simp split: if_splits)
  from 1 d(1) d(2) 4 show ?thesis by blast
qed

theorem C2_boundary_resolution_witness:
  "\<exists>c b. Contain_init id id
       \<lparr>co_rule = ''all'', co_values = [1 :: int, 2, 3], co_min_occurrences = None,
        co_max_occurrences = None,
        co_occurrences_per_value =
          [\<lparr>o_values = ListOf [1, 2], o_min_occurrences = Some (Fin 2), o_max_occurrences = None\<rparr>,
           \<lparr>o_values = Scalar 2, o_min_occurrences = None, o_max_occurrences = Some (Fin 5)\<rparr>],
        co_verbose = None\<rparr> = Inr (c :: (int, int) contain)
     \<and> set_min_max_boundaries c = Inr b
     \<and> map_of b 1 = Some \<lparr>b_min_occurrences = Fin 2, b_max_occurrences = PosInf\<rparr>
     \<and> map_of b 2 = Some \<lparr>b_min_occurrences = Fin 1, b_max_occurrences = Fin 5\<rparr>
     \<and> map_of b 3 = Some \<lparr>b_min_occurrences = Fin 1, b_max_occurrences = PosInf\<rparr>
     \<and> map_of b 4 = None"
proof -
  let ?opts = "\<lparr>co_rule = ''all'', co_values = [1 :: int, 2, 3], co_min_occurrences = None,
        co_max_occurrences = None,
        co_occurrences_per_value =
          [\<lparr>o_values = ListOf [1, 2], o_min_occurrences = Some (Fin 2), o_max_occurrences = None\<rparr>,
           \<lparr>o_values = Scalar 2, o_min_occurrences = None, o_max_occurrences = Some (Fin 5)\<rparr>],
        co_verbose = None\<rparr>"
  let ?c = "\<lparr>c_rule = ''all'', c_treater = id, c_serialize = id, c_values = [1 :: int, 2, 3],
      c_min_occurrences = Fin 1, c_max_occurrences = PosInf,
      c_occurrences_per_value =
          [\<lparr>o_values = ListOf [1 :: int, 2], o_min_occurrences = Some (Fin 2),
            o_max_occurrences = None\<rparr>,
           \<lparr>o_values = Scalar 2, o_min_occurrences = None, o_max_occurrences = Some (Fin 5)\<rparr>],
      c_verbose = True, c_value_count = None\<rparr>"
  have i: "Contain_init id id ?opts = Inr ?c"
    by (simp add: Contain_init_def set_default_minmax_occurrences_def assert_parameters_def
        min_occurrences_rule_default_def max_occurrences_rule_default_def)
  have l: "\<forall>g \<in> set (c_occurrences_per_value ?c). set (listed ?c g) \<subseteq> set (c_values ?c)"
    by (simp add: listed_def)
  have "\<exists>b. set_min_max_boundaries ?c = Inr b
          \<and> (\<forall>v. map_of b v =
                (if v \<in> set (c_values ?c) then Some (spec_resolved ?c v) else None))"
    using C2_boundary_resolution [OF i, THEN conjunct2, THEN conjunct2, THEN conjunct2]
    unfolding if_P [OF l] .
  then obtain b where
    b: "set_min_max_boundaries ?c = Inr b"
       "\<forall>v. map_of b v = (if v \<in> set (c_values ?c) then Some (spec_resolved ?c v) else None)"
    by blast
  have "map_of b 1 = Some \<lparr>b_min_occurrences = Fin 2, b_max_occurrences = PosInf\<rparr>"
       "map_of b 2 = Some \<lparr>b_min_occurrences = Fin 1, b_max_occurrences = Fin 5\<rparr>"
       "map_of b 3 = Some \<lparr>b_min_occurrences = Fin 1, b_max_occurrences = PosInf\<rparr>"
       "map_of b 4 = None"
    by (simp_all add: b(2) spec_resolved_def listed_def)
  with i b(1) show ?thesis by blast
qed

subsection \<open>Contain: interval check\<close>

lemma check_interval_loop_spec:
  assumes "\<forall>v \<in> set vs. map_of b v \<noteq> None"
  shows "check_interval_loop rule b value_count vs =
           Inr (\<forall>v \<in> set vs. \<exists>bd. map_of b v = Some bd
                  \<and> spec_interval_ok rule bd (map_of value_count v))"
  using assms
proof (induction vs)
  case Nil
  then show ?case by simp
next
  case (Cons v vs)
  from Cons.prems obtain bd where bd: "map_of b v = Some bd" by auto
  have ih: "check_interval_loop rule b value_count vs =
           Inr (\<forall>v \<in> set vs. \<exists>bd. map_of b v = Some bd
                  \<and> spec_interval_ok rule bd (map_of value_count v))"
    using Cons by simp
  show ?case
  proof (cases "map_of value_count v")
    case None
    then show ?thesis using bd ih by (auto simp: spec_interval_ok_def Let_def)
  next
    case (Some n)
    then show ?thesis using bd ih by (auto simp: spec_interval_ok_def Let_def)
  qed
qed

text \<open>
  C1.  For every Contain statement, with \<open>b\<close> the boundaries that
  \<^verbatim>\<open>_set_min_max_boundaries\<close> resolves, and every frequency map: the interval check is
  true exactly when each expected value that is observed has its frequency between its
  resolved minimum and maximum, and each expected value that is not observed is not a
  violation, which it is only when the rule is not \<^verbatim>\<open>only\<close> and both of its resolved
  bounds are non-zero.  So under the rule \<^verbatim>\<open>only\<close> the check looks at the observed
  values alone: no minimum is enforced for an absent value.
\<close>

theorem C1_check_interval:
  assumes "set_min_max_boundaries c = Inr b"
  shows "check_interval c b value_count =
           Inr (\<forall>v \<in> set (c_values c). \<exists>bd. map_of b v = Some bd
                  \<and> spec_interval_ok (c_rule c) bd (map_of value_count v))
       \<and> (c_rule c = ''only'' \<longrightarrow>
            check_interval c b value_count =
              Inr (\<forall>v \<in> set (c_values c). \<forall>n. map_of value_count v = Some n \<longrightarrow>
                     (\<exists>bd. map_of b v = Some bd
                        \<and> occ_le (b_min_occurrences bd) (Fin n)
                        \<and> occ_le (Fin n) (b_max_occurrences bd))))"
proof -
  have k: "\<forall>v \<in> set (c_values c). map_of b v \<noteq> None"
    using set_min_max_boundaries_keys [OF assms] by simp
  have 1: "check_interval c b value_count =
           Inr (\<forall>v \<in> set (c_values c). \<exists>bd. map_of b v = Some bd
                  \<and> spec_interval_ok (c_rule c) bd (map_of value_count v))"
    unfolding check_interval_def using check_interval_loop_spec [OF k] .
  have p: "(\<exists>bd. map_of b v = Some bd \<and> spec_interval_ok ''only'' bd (map_of value_count v))
       = (\<forall>n. map_of value_count v = Some n \<longrightarrow>
            (\<exists>bd. map_of b v = Some bd
               \<and> occ_le (b_min_occurrences bd) (Fin n)
               \<and> occ_le (Fin n) (b_max_occurrences bd)))"
    if "v \<in> set (c_values c)" for v
  proof -
    from k that obtain bd where "map_of b v = Some bd" by auto
    then show ?thesis
      by (cases "map_of value_count v") (simp_all add: spec_interval_ok_def)
  qed
  have 2: "c_rule c = ''only'' \<Longrightarrow>
     (\<forall>v \<in> set (c_values c). \<exists>bd. map_of b v = Some bd
                  \<and> spec_interval_ok (c_rule c) bd (map_of value_count v))
     = (\<forall>v \<in> set (c_values c). \<forall>n. map_of value_count v = Some n \<longrightarrow>
                     (\<exists>bd. map_of b v = Some bd
                        \<and> occ_le (b_min_occurrences bd) (Fin n)
                        \<and> occ_le (Fin n) (b_max_occurrences bd)))"
    using p by simp
  from 1 2 show ?thesis by simp
qed

text \<open>
  Under \<^verbatim>\<open>only\<close>, the value \<^verbatim>\<open>a\<close> has the minimum 2 by an override and does not occur;
  the interval check passes.
\<close>

theorem C1_check_interval_witness:
  "check_interval
     \<lparr>c_rule = ''only'', c_treater = id, c_serialize = id, c_values = [''a'', ''b''],
      c_min_occurrences = Fin 0, c_max_occurrences = PosInf,
      c_occurrences_per_value =
        [\<lparr>o_values = Scalar ''a'', o_min_occurrences = Some (Fin 2), o_max_occurrences = None\<rparr>],
      c_verbose = True, c_value_count = None\<rparr>
     [(''a'', \<lparr>b_min_occurrences = Fin 2, b_max_occurrences = PosInf\<rparr>),
      (''b'', \<lparr>b_min_occurrences = Fin 0, b_max_occurrences = PosInf\<rparr>)]
     [(''b'', 3)] = Inr True"
proof -
  let ?c = "\<lparr>c_rule = ''only'', c_treater = id, c_serialize = id, c_values = [''a'', ''b''],
      c_min_occurrences = Fin 0, c_max_occurrences = PosInf,
      c_occurrences_per_value =
        [\<lparr>o_values = Scalar ''a'', o_min_occurrences = Some (Fin 2), o_max_occurrences = None\<rparr>],
      c_verbose = True, c_value_count = None\<rparr>"
  have e: "set_min_max_boundaries ?c =
      Inr [(''a'', \<lparr>b_min_occurrences = Fin 2, b_max_occurrences = PosInf\<rparr>),
           (''b'', \<lparr>b_min_occurrences = Fin 0, b_max_occurrences = PosInf\<rparr>)]"
    by (simp add: set_min_max_boundaries_def global_boundaries_def listed_def dedicated_pair_def)
  from C1_check_interval [OF e, of "[(''b'', 3)]", THEN conjunct1]
  show ?thesis by (simp add: spec_interval_ok_def)
qed

subsection \<open>Contain: the report argument of result\<close>

text \<open>
  C9.  After \<open>report\<close> has run on a statement, whatever its \<^verbatim>\<open>value_count\<close> attribute
  was before, the attribute holds the frequencies of the pooled columns of that table,
  and \<open>result\<close> gives the same answer on any two report dictionaries, the empty one
  included: the report argument is not read.
\<close>

theorem C9_result_ignores_report:
  assumes "Contain_report c df = Inr (c', rep)"
  shows "Contain_result c' r1 = Contain_result c' r2
       \<and> Contain_result c' r1 = Contain_result c' []
       \<and> c' = c\<lparr>c_value_count := Some (value_counts (pooled df))\<rparr>
       \<and> Contain_report (c\<lparr>c_value_count := previous\<rparr>) df = Inr (c', rep)"
  using assms
  by (auto simp: Contain_result_def Contain_report_def Let_def split: if_splits)


theorem C9_result_ignores_report_witness:
  "\<exists>c' rep.
     Contain_report
       \<lparr>c_rule = ''all_and_only'', c_treater = id, c_serialize = id, c_values = [1 :: int, 2, 3],
        c_min_occurrences = Fin 1, c_max_occurrences = PosInf, c_occurrences_per_value = [],
        c_verbose = False, c_value_count = None\<rparr>
       \<lparr>ncols = 1, df_rows = [[Some 1], [Some 2], [Some 3], [Some 1], [None]]\<rparr> = Inr (c', rep)
     \<and> rep \<noteq> []
     \<and> Contain_result c' rep = Inr True
     \<and> Contain_result c' [] = Inr True"
proof -
  let ?c = "\<lparr>c_rule = ''all_and_only'', c_treater = id, c_serialize = id,
        c_values = [1 :: int, 2, 3],
        c_min_occurrences = Fin 1, c_max_occurrences = PosInf, c_occurrences_per_value = [],
        c_verbose = False, c_value_count = None\<rparr>"
  let ?df = "\<lparr>ncols = 1, df_rows = [[Some (1 :: int)], [Some 2], [Some 3], [Some 1], [None]]\<rparr>"
  let ?c' = "\<lparr>c_rule = ''all_and_only'', c_treater = id, c_serialize = id,
        c_values = [1 :: int, 2, 3],
        c_min_occurrences = Fin 1, c_max_occurrences = PosInf, c_occurrences_per_value = [],
        c_verbose = False, c_value_count = Some [(2 :: int, 1 :: int), (3, 1), (1, 2)]\<rparr>"
  let ?rep = "[(''value_frequency'', [(2 :: int, Fl 1), (3, Fl 1), (1, Fl 2)])]"
  have vc: "value_counts (pooled ?df) = [(2, 1), (3, 1), (1, 2)]"
    by (simp add: value_counts_def pooled_def df_column_def)
  have r: "Contain_report ?c ?df = Inr (?c', ?rep)"
    unfolding Contain_report_def vc by (simp add: dict_zip_def)
  have b: "set_min_max_boundaries ?c' =
      Inr [(1, \<lparr>b_min_occurrences = Fin 1, b_max_occurrences = PosInf\<rparr>),
           (2, \<lparr>b_min_occurrences = Fin 1, b_max_occurrences = PosInf\<rparr>),
           (3, \<lparr>b_min_occurrences = Fin 1, b_max_occurrences = PosInf\<rparr>)]"
    by (simp add: set_min_max_boundaries_def global_boundaries_def)
  have e: "Contain_result ?c' [] = Inr True"
    by (simp add: Contain_result_def b set_values_scope_def check_interval_def check_rule_def
        check_all_def check_only_def)
  have "Contain_result ?c' ?rep = Contain_result ?c' []"
    by (rule C9_result_ignores_report [OF r, THEN conjunct1])
  also note e
  finally have "Contain_result ?c' ?rep = Inr True" .
  with r e show ?thesis by blast
qed

end
